theory Spec2Isabelle
  imports Main "HOL-Library.Char_ord" "HOL-Library.List_Lexorder"
begin

section \<open>Strings\<close>

text \<open>
  Text is a list of 8-bit characters. The few glyphs outside ASCII that the program's
  message literals contain (the trailing pictographs) are written as their UTF-8 bytes.
  \<open>toLowerCase\<close> folds the ASCII capitals \<open>A\<close>..\<open>Z\<close> and leaves every other character as
  it is; \<open>str_includes s t\<close> is \<open>s.includes(t)\<close>: \<open>t\<close> occurs in \<open>s\<close> at some position.
  JavaScript's \<open>toLowerCase\<close> also folds the capitals outside ASCII (U+212A, the Kelvin sign,
  becomes \<open>k\<close>); such text is outside this model, whose statements are about text with
  ASCII capitals.
\<close>

definition toLowerChar :: "char \<Rightarrow> char" where
  "toLowerChar c =
     (let n = (of_char c :: nat) in if 65 \<le> n \<and> n \<le> 90 then char_of (n + 32) else c)"

definition toLowerCase :: "string \<Rightarrow> string" where
  "toLowerCase s = map toLowerChar s"

fun startsWith :: "string \<Rightarrow> string \<Rightarrow> bool" where
  "startsWith s [] = True"
| "startsWith [] (c # t) = False"
| "startsWith (a # s) (c # t) = (a = c \<and> startsWith s t)"

fun str_includes :: "string \<Rightarrow> string \<Rightarrow> bool" where
  "str_includes [] t = (t = [])"
| "str_includes (a # s) t = (startsWith (a # s) t \<or> str_includes s t)"

text \<open>
  JavaScript truthiness of an optional string: \<open>undefined\<close> and the empty string are
  falsy, every other string is truthy.
\<close>

fun truthy :: "string option \<Rightarrow> bool" where
  "truthy None = False"
| "truthy (Some s) = (s \<noteq> [])"

section \<open>Content filter (contentFilter.ts)\<close>

definition BLOCKED_TERMS :: "string list" where
  "BLOCKED_TERMS =
   [''kill'', ''killing'', ''dead'', ''death'', ''die'', ''dying'', ''murder'', ''blood'', ''bloody'',
    ''weapon'', ''gun'', ''knife'', ''sword'', ''fight'', ''fighting'', ''war'', ''battle'',
    ''hurt'', ''attack'', ''attacking'', ''destroy'', ''explosion'', ''bomb'',
    ''scary'', ''horror'', ''monster'', ''demon'', ''devil'', ''evil'', ''nightmare'', ''haunted'',
    ''ghost'', ''zombie'', ''vampire'', ''skeleton'', ''creepy'', ''terrifying'', ''frightening'',
    ''naked'', ''nude'', ''sexy'', ''kiss'', ''kissing'', ''romantic'', ''love'', ''dating'',
    ''boyfriend'', ''girlfriend'', ''married'', ''wedding'',
    ''hate'', ''hating'', ''angry'', ''furious'', ''rage'', ''crying'', ''sad'', ''depressed'',
    ''alcohol'', ''beer'', ''wine'', ''drunk'', ''smoke'', ''smoking'', ''drugs'']"

definition GENTLE_ALTERNATIVES :: "string \<rightharpoonup> string" where
  "GENTLE_ALTERNATIVES =
   map_of [(''scary'', ''exciting''), (''fight'', ''play''), (''fighting'', ''playing''),
           (''angry'', ''grumpy''), (''sad'', ''a little blue''),
           (''crying'', ''feeling emotional''), (''hurt'', ''bumped'')]"

record ContentCheckResult =
  isAllowed :: bool
  friendlyMessage :: "string option"
  cleanedText :: "string option"

definition gentleMessage :: "string \<Rightarrow> string \<Rightarrow> string" where
  "gentleMessage t alt =
     ''Oops! Let's use friendlier words. Instead of '' @ [CHR 0x22] @ t @ [CHR 0x22] @
     '', how about '' @ [CHR 0x22] @ alt @ [CHR 0x22] @ ''? '' @
     [CHR 0xF0, CHR 0x9F, CHR 0x8C, CHR 0x9F]"

definition genericMessage :: string where
  "genericMessage =
     ''Hmm, let's keep our stories happy and friendly! Try describing something nice that could happen instead. '' @
     [CHR 0xF0, CHR 0x9F, CHR 0x8C, CHR 0x88]"

definition reassuringMessage :: string where
  "reassuringMessage =
     ''That sounds like an adventure! Remember, everything turns out okay in the end! '' @
     [CHR 0xE2, CHR 0x9C, CHR 0xA8]"

text \<open>The body of the first loop at a term that matched: the two \<open>return\<close>s of the denial.\<close>

definition blockedResult :: "bool \<Rightarrow> string \<Rightarrow> ContentCheckResult" where
  "blockedResult extraGentleMode t =
     (if extraGentleMode \<and> truthy (GENTLE_ALTERNATIVES t)
      then \<lparr>isAllowed = False,
            friendlyMessage = Some (gentleMessage t (the (GENTLE_ALTERNATIVES t))),
            cleanedText = None\<rparr>
      else \<lparr>isAllowed = False, friendlyMessage = Some genericMessage, cleanedText = None\<rparr>)"

text \<open>
  \<open>for (const term of BLOCKED_TERMS)\<close>: \<open>None\<close> when the loop ends without a \<open>return\<close>.
\<close>

fun checkBlocked :: "string list \<Rightarrow> string \<Rightarrow> bool \<Rightarrow> ContentCheckResult option" where
  "checkBlocked [] lowerText extraGentleMode = None"
| "checkBlocked (t # rest) lowerText extraGentleMode =
     (if str_includes lowerText t then Some (blockedResult extraGentleMode t)
      else checkBlocked rest lowerText extraGentleMode)"

definition mildlyNegative :: "string list" where
  "mildlyNegative = [''lost'', ''alone'', ''dark'', ''storm'', ''thunder'']"

fun checkMild :: "string list \<Rightarrow> string \<Rightarrow> string \<Rightarrow> ContentCheckResult option" where
  "checkMild [] lowerText txt = None"
| "checkMild (t # rest) lowerText txt =
     (if str_includes lowerText t
      then Some \<lparr>isAllowed = True, friendlyMessage = Some reassuringMessage,
                 cleanedText = Some txt\<rparr>
      else checkMild rest lowerText txt)"

definition checkContent :: "string \<Rightarrow> bool \<Rightarrow> ContentCheckResult" where
  "checkContent txt extraGentleMode =
     (let lowerText = toLowerCase txt in
      case checkBlocked BLOCKED_TERMS lowerText extraGentleMode of
        Some r \<Rightarrow> r
      | None \<Rightarrow>
          (case (if extraGentleMode then checkMild mildlyNegative lowerText txt else None) of
             Some r \<Rightarrow> r
           | None \<Rightarrow> \<lparr>isAllowed = True, friendlyMessage = None, cleanedText = Some txt\<rparr>))"

text \<open>
  A term occurs in a text whatever its casing: some stretch \<open>w\<close> of the text reads as the
  term once its capitals are folded.
\<close>

definition occursAnyCase :: "string \<Rightarrow> string \<Rightarrow> bool" where
  "occursAnyCase t txt = (\<exists>pre w suf. txt = pre @ w @ suf \<and> toLowerCase w = t)"


section \<open>Data model (types/index.ts)\<close>

datatype AnimalMode = dream | toy

datatype Species =
  Horse | Cow | Pig | Sheep | Chicken | Cat | Dog | Goat | Bunny | Duck | Other

datatype Personality =
  Brave | Kind | Silly | Curious | Calm | Adventurous | Gentle | Playful

datatype Location =
  Stable | Barn | Pasture | Meadow | ForestTrail | RidingArena | WinterField | River
  | MountainPath | CozyFarm

text \<open>The string each tag is at run time.\<close>

fun speciesName :: "Species \<Rightarrow> string" where
  "speciesName Horse = ''Horse''"
| "speciesName Cow = ''Cow''"
| "speciesName Pig = ''Pig''"
| "speciesName Sheep = ''Sheep''"
| "speciesName Chicken = ''Chicken''"
| "speciesName Cat = ''Cat''"
| "speciesName Dog = ''Dog''"
| "speciesName Goat = ''Goat''"
| "speciesName Bunny = ''Bunny''"
| "speciesName Duck = ''Duck''"
| "speciesName Other = ''Other''"

fun personalityName :: "Personality \<Rightarrow> string" where
  "personalityName Brave = ''Brave''"
| "personalityName Kind = ''Kind''"
| "personalityName Silly = ''Silly''"
| "personalityName Curious = ''Curious''"
| "personalityName Calm = ''Calm''"
| "personalityName Adventurous = ''Adventurous''"
| "personalityName Gentle = ''Gentle''"
| "personalityName Playful = ''Playful''"

record AnimalColors =
  primary :: string
  secondary :: string
  markings :: "string option"

text \<open>
  The field \<open>id\<close> of the source is \<open>animalId\<close> (\<open>sceneId\<close> in a scene); \<open>createdAt\<close>, a
  millisecond time stamp, is an integer.
\<close>

record Animal =
  animalId :: string
  createdAt :: int
  mode :: AnimalMode
  name :: string
  species :: Species
  personality :: Personality
  colors :: AnimalColors
  specialThing :: "string option"
  stickerDataUrl :: "string option"
  portraitDataUrl :: "string option"

record Scene =
  sceneId :: string
  sceneCreatedAt :: int
  title :: string
  location :: Location
  animalIds :: "string list"
  userDescription :: string
  promptUsed :: string
  imageDataUrls :: "string list"
  chosenImageDataUrl :: "string option"
  caption :: "string option"
  voiceNoteDataUrl :: "string option"

record Settings =
  openaiApiKey :: "string option"
  imageModel :: string
  imageCount :: int
  kidSafeMode :: bool
  extraGentleMode :: bool

section \<open>Prompt builder (imageGeneration.ts, contentFilter.ts)\<close>

definition NL :: string where
  "NL = [CHR 0x0A]"

definition ART_STYLE :: string where
  "ART_STYLE =
     ''cozy children's storybook watercolor illustration, warm soft lighting, '' @ NL @
     ''gentle pastel colors with pops of warmth, friendly inviting atmosphere, '' @ NL @
     ''hand-painted feel with soft edges, magical dreamy quality, '' @ NL @
     ''reminiscent of classic children's picture books''"

fun LOCATION_DESCRIPTIONS :: "Location \<Rightarrow> string" where
  "LOCATION_DESCRIPTIONS Stable =
     ''a cozy wooden stable with hay bales, warm lantern light, and comfortable stalls''"
| "LOCATION_DESCRIPTIONS Barn =
     ''a charming red barn with open doors, golden sunlight streaming in, rustic wooden beams''"
| "LOCATION_DESCRIPTIONS Pasture =
     ''a lush green pasture with wildflowers, white wooden fences, and rolling hills''"
| "LOCATION_DESCRIPTIONS Meadow =
     ''a beautiful wildflower meadow with butterflies, soft grass, and gentle sunshine''"
| "LOCATION_DESCRIPTIONS ForestTrail =
     ''a magical forest trail with dappled sunlight through leaves, ferns, and mossy rocks''"
| "LOCATION_DESCRIPTIONS RidingArena =
     ''a well-kept riding arena with white fences, soft sandy ground, and blue sky''"
| "LOCATION_DESCRIPTIONS WinterField =
     ''a peaceful snowy field with gentle snowflakes, frost-covered fences, and cozy atmosphere''"
| "LOCATION_DESCRIPTIONS River =
     ''a gentle babbling brook with smooth stones, willow trees, and sparkling water''"
| "LOCATION_DESCRIPTIONS MountainPath =
     ''a scenic mountain trail with wildflowers, pine trees, and distant peaks''"
| "LOCATION_DESCRIPTIONS CozyFarm =
     ''a charming farmyard with a cottage, vegetable garden, and friendly atmosphere''"

definition buildKidSafePromptSuffix :: string where
  "buildKidSafePromptSuffix =
     NL @ ''IMPORTANT STYLE REQUIREMENTS:'' @ NL @
     ''- Cozy, warm, and friendly atmosphere'' @ NL @
     ''- Soft, inviting colors with gentle lighting'' @ NL @
     ''- All animals have happy, friendly expressions'' @ NL @
     ''- Safe, wholesome environment suitable for children'' @ NL @
     ''- Storybook illustration style with a magical, dreamy quality'' @ NL @
     ''- No scary, violent, or inappropriate elements'' @ NL @
     ''- Everything feels safe, warm, and welcoming''"

text \<open>A number in a template literal: its decimal digits.\<close>

fun showNat :: "nat \<Rightarrow> string" where
  "showNat n =
     (if n < 10 then [char_of (48 + n)] else showNat (n div 10) @ [char_of (48 + n mod 10)])"

declare showNat.simps [simp del]

text \<open>\<open>Array.prototype.join\<close> on strings.\<close>

fun join :: "string \<Rightarrow> string list \<Rightarrow> string" where
  "join sep [] = []"
| "join sep [x] = x"
| "join sep (x # y # ys) = x @ sep @ join sep (y # ys)"

text \<open>
  \<open>a || b\<close> on two optional strings, and the image of an animal as both the prompt
  builder and \<open>getAnimalImages\<close> compute it: \<open>portraitDataUrl || stickerDataUrl\<close>.
\<close>

definition orElse :: "string option \<Rightarrow> string option \<Rightarrow> string option" where
  "orElse a b = (if truthy a then a else b)"

definition animalImage :: "Animal \<Rightarrow> string option" where
  "animalImage animal = orElse (portraitDataUrl animal) (stickerDataUrl animal)"

text \<open>The array \<open>parts\<close> that the callback of \<open>animals.map\<close> builds for one animal.\<close>

definition animalParts :: "Animal \<Rightarrow> nat \<Rightarrow> string list" where
  "animalParts animal index =
     (let hasImage = truthy (animalImage animal) in
      [name animal @ '' the '' @ toLowerCase (speciesName (species animal)),
       if hasImage then '' (shown in reference image '' @ showNat (index + 1) @ '')'' else [],
       if \<not> hasImage then '' ('' @ primary (colors animal) else [],
       if \<not> hasImage \<and> secondary (colors animal) \<noteq> []
         then '' with '' @ secondary (colors animal) @ '' markings'' else [],
       if \<not> hasImage \<and> truthy (markings (colors animal))
         then '', '' @ the (markings (colors animal)) else [],
       if \<not> hasImage then '')'' else [],
       '', who is '' @ toLowerCase (personalityName (personality animal)),
       if truthy (specialThing animal) then '' and '' @ the (specialThing animal) else []])"

definition describeAnimal :: "Animal \<Rightarrow> nat \<Rightarrow> string" where
  "describeAnimal animal index = concat (animalParts animal index)"

definition animalDescriptions :: "Animal list \<Rightarrow> string" where
  "animalDescriptions animals =
     join ''; '' (map (\<lambda>(index, animal). describeAnimal animal index) (enumerate 0 animals))"

definition buildScenePrompt :: "Animal list \<Rightarrow> Location \<Rightarrow> string \<Rightarrow> string" where
  "buildScenePrompt animals loc description =
     ART_STYLE @ ''.'' @ NL @ NL @
     ''Scene setting: '' @ LOCATION_DESCRIPTIONS loc @ ''.'' @ NL @ NL @
     ''Characters: '' @ animalDescriptions animals @ ''.'' @ NL @ NL @
     ''What's happening: '' @ description @ NL @ NL @
     ''IMPORTANT: Draw the characters to match the reference images provided. Keep their appearance consistent with the references.'' @ NL @ NL @
     buildKidSafePromptSuffix"

definition getAnimalImages :: "Animal list \<Rightarrow> string list" where
  "getAnimalImages animals = map the (filter truthy (map animalImage animals))"

text \<open>
  The appearance clause of a descriptor, as the specification words it: a character
  either defers to reference image \<open>N\<close> or has its colours spelled out in full (the
  primary colour, then the secondary colour and the markings when present). The
  properties below compare the descriptor that \<open>buildScenePrompt\<close> computes with the
  rendering of this clause between the name clause and the trait clause.
\<close>

datatype Appearance = ReferenceImage nat | InlineColors AnimalColors

fun renderAppearance :: "Appearance \<Rightarrow> string" where
  "renderAppearance (ReferenceImage n) = '' (shown in reference image '' @ showNat n @ '')''"
| "renderAppearance (InlineColors c) =
     '' ('' @ primary c @
     (if secondary c \<noteq> [] then '' with '' @ secondary c @ '' markings'' else []) @
     (if truthy (markings c) then '', '' @ the (markings c) else []) @ '')''"

fun isReference :: "Appearance \<Rightarrow> bool" where
  "isReference (ReferenceImage n) = True"
| "isReference (InlineColors c) = False"

fun isInlineColors :: "Appearance \<Rightarrow> bool" where
  "isInlineColors (ReferenceImage n) = False"
| "isInlineColors (InlineColors c) = True"

definition appearanceOf :: "Animal \<Rightarrow> nat \<Rightarrow> Appearance" where
  "appearanceOf animal index =
     (if truthy (animalImage animal) then ReferenceImage (index + 1)
      else InlineColors (colors animal))"

definition sceneAppearances :: "Animal list \<Rightarrow> Appearance list" where
  "sceneAppearances animals =
     map (\<lambda>(index, animal). appearanceOf animal index) (enumerate 0 animals)"

definition nameClause :: "Animal \<Rightarrow> string" where
  "nameClause animal = name animal @ '' the '' @ toLowerCase (speciesName (species animal))"

definition traitClause :: "Animal \<Rightarrow> string" where
  "traitClause animal =
     '', who is '' @ toLowerCase (personalityName (personality animal)) @
     (if truthy (specialThing animal) then '' and '' @ the (specialThing animal) else [])"

text \<open>The number of positions of \<open>s\<close> at which \<open>t\<close> starts.\<close>

fun countOccurrences :: "string \<Rightarrow> string \<Rightarrow> nat" where
  "countOccurrences [] t = (if t = [] then 1 else 0)"
| "countOccurrences (a # s) t =
     (if startsWith (a # s) t then 1 else 0) + countOccurrences s t"

text \<open>Three characters for the scenarios below: two with an image, one without.\<close>

definition exampleLuna :: Animal where
  "exampleLuna =
     \<lparr>animalId = ''a1'', createdAt = 1735000000000, mode = dream, name = ''Luna'',
      species = Horse, personality = Brave,
      colors = \<lparr>primary = ''silver'', secondary = ''black'', markings = None\<rparr>,
      specialThing = Some ''loves apples'', stickerDataUrl = None,
      portraitDataUrl = Some ''data:image/png;base64,LUNA''\<rparr>"

definition exampleDaisy :: Animal where
  "exampleDaisy =
     \<lparr>animalId = ''a2'', createdAt = 1735000000500, mode = dream, name = ''Daisy'',
      species = Cow, personality = Kind,
      colors = \<lparr>primary = ''golden'', secondary = ''white'',
                markings = Some ''a star on the forehead''\<rparr>,
      specialThing = None, stickerDataUrl = None, portraitDataUrl = None\<rparr>"

definition exampleMax :: Animal where
  "exampleMax =
     \<lparr>animalId = ''a3'', createdAt = 1735000001000, mode = toy, name = ''Max'',
      species = Dog, personality = Playful,
      colors = \<lparr>primary = ''brown'', secondary = [], markings = None\<rparr>,
      specialThing = None, stickerDataUrl = Some ''data:image/png;base64,MAX'',
      portraitDataUrl = None\<rparr>"


section \<open>Generation client (imageGeneration.ts)\<close>

text \<open>
  The shape \<open>{ success, images?, error? }\<close> that the client and the provider functions of
  the gateway return.
\<close>

record ImageGenerationResult =
  success :: bool
  images :: "string list option"
  error :: "string option"

text \<open>
  What \<open>fetch('/api/generate-image', ...)\<close> is given and what comes back. The request
  body holds the prompt, the count and the reference images. The reply is a failed call
  (\<open>fetch\<close> throws), or a status with a body; the body is \<open>None\<close> when
  \<open>response.json()\<close> throws or gives \<open>null\<close> (reading a field of it throws then, and both
  end in the \<open>catch\<close> block), else the record of its two optional fields, \<open>images\<close> an
  array of strings when present. The server is a function from the request to the reply.
\<close>

record ApiRequest =
  reqPrompt :: string
  reqCount :: int
  reqReferenceImages :: "string list"

record ApiPayload =
  payloadError :: "string option"
  payloadImages :: "string list option"

datatype ApiResponse = FetchThrows | Responded nat "ApiPayload option"

definition response_ok :: "nat \<Rightarrow> bool" where
  "response_ok status = (200 \<le> status \<and> status \<le> 299)"

definition rateLimitedMessage :: string where
  "rateLimitedMessage =
     ''Whoa, slow down! Wait a moment and try again '' @ [CHR 0xE2, CHR 0x8F, CHR 0xB0]"

definition tryDifferentMessage :: string where
  "tryDifferentMessage =
     ''Let's try describing something different! '' @ [CHR 0xF0, CHR 0x9F, CHR 0x8C, CHR 0x88]"

definition notSetUpMessage :: string where
  "notSetUpMessage =
     ''Oops! Something's not set up right. Ask Uncle Gavin! '' @
     [CHR 0xF0, CHR 0x9F, CHR 0x94, CHR 0xA7]"

definition needsFuelMessage :: string where
  "needsFuelMessage =
     ''The magic machine needs more fuel! Ask Uncle Gavin '' @
     [CHR 0xF0, CHR 0x9F, CHR 0x94, CHR 0xA7]"

definition wentWrongMessage :: string where
  "wentWrongMessage =
     ''Something went wrong. Let's try again! '' @ [CHR 0xF0, CHR 0x9F, CHR 0x94, CHR 0x84]"

definition noImagesMessage :: string where
  "noImagesMessage =
     ''No images were created. Let's try again! '' @ [CHR 0xF0, CHR 0x9F, CHR 0x94, CHR 0x84]"

definition noConnectionMessage :: string where
  "noConnectionMessage =
     ''Could not connect to the server. Check your internet! '' @
     [CHR 0xF0, CHR 0x9F, CHR 0x8C, CHR 0x90]"

definition friendlyError :: "string \<Rightarrow> string" where
  "friendlyError e =
     (if str_includes e ''Rate'' \<or> str_includes e ''rate'' \<or> str_includes e ''429''
        then rateLimitedMessage
      else if str_includes e ''content'' \<or> str_includes e ''safety'' \<or> str_includes e ''policy''
        then tryDifferentMessage
      else if str_includes e ''API key'' \<or> str_includes e ''not configured'' \<or>
              str_includes e ''auth'' \<or> str_includes e ''401''
        then notSetUpMessage
      else if str_includes e ''billing'' \<or> str_includes e ''quota'' \<or> str_includes e ''403''
        then needsFuelMessage
      else wentWrongMessage)"

text \<open>
  \<open>generateImages\<close>. Both a throwing \<open>fetch\<close> and an unreadable body end in the
  \<open>catch\<close> block. The settings argument is not read.
\<close>

definition generateImages ::
  "string \<Rightarrow> Settings \<Rightarrow> int \<Rightarrow> string list option \<Rightarrow> (ApiRequest \<Rightarrow> ApiResponse)
     \<Rightarrow> ImageGenerationResult" where
  "generateImages prompt settings count referenceImages server =
     (case server \<lparr>reqPrompt = prompt, reqCount = count,
                   reqReferenceImages = (case referenceImages of Some r \<Rightarrow> r | None \<Rightarrow> [])\<rparr> of
        FetchThrows \<Rightarrow> \<lparr>success = False, images = None, error = Some noConnectionMessage\<rparr>
      | Responded status None \<Rightarrow>
          \<lparr>success = False, images = None, error = Some noConnectionMessage\<rparr>
      | Responded status (Some payload) \<Rightarrow>
          if \<not> response_ok status then
            \<lparr>success = False, images = None,
             error = Some (friendlyError
               (if truthy (payloadError payload) then the (payloadError payload)
                else ''Error '' @ showNat status))\<rparr>
          else if payloadImages payload = None \<or> payloadImages payload = Some [] then
            \<lparr>success = False, images = None, error = Some noImagesMessage\<rparr>
          else \<lparr>success = True, images = payloadImages payload, error = None\<rparr>)"

text \<open>\<open>generateSceneImages\<close>: the result together with \<open>promptUsed\<close>.\<close>

definition generateSceneImages ::
  "Animal list \<Rightarrow> Location \<Rightarrow> string \<Rightarrow> Settings \<Rightarrow> (ApiRequest \<Rightarrow> ApiResponse)
     \<Rightarrow> ImageGenerationResult \<times> string" where
  "generateSceneImages animals loc description settings server =
     (let prompt = buildScenePrompt animals loc description;
          referenceImages = getAnimalImages animals;
          result = generateImages prompt settings (imageCount settings) (Some referenceImages) server
      in (result, prompt))"


section \<open>Persistence (database.ts)\<close>

text \<open>
  An object store with key path \<open>id\<close> holds at most one record per key and keeps its
  records in key order: it is the list of its records in ascending order of their keys
  (strings here; the definition asks only for a linear order).
  \<open>putRecord\<close> is \<open>store.put\<close>: the record replaces the one with its key, or is added
  at its place. The settings store holds one value under the key \<open>main\<close>, or nothing.
\<close>

fun putRecord :: "('a \<Rightarrow> 'k::linorder) \<Rightarrow> 'a \<Rightarrow> 'a list \<Rightarrow> 'a list" where
  "putRecord key r [] = [r]"
| "putRecord key r (x # xs) =
     (if key r < key x then r # x # xs
      else if key r = key x then r # xs
      else x # putRecord key r xs)"

record Store =
  animalStore :: "Animal list"
  sceneStore :: "Scene list"
  settingsStore :: "Settings option"

definition emptyStore :: Store where
  "emptyStore = \<lparr>animalStore = [], sceneStore = [], settingsStore = None\<rparr>"

text \<open>
  The state every sequence of operations keeps: each object store is in strictly
  ascending order of its keys.
\<close>

definition storeOrdered :: "Store \<Rightarrow> bool" where
  "storeOrdered db =
     (sorted (map animalId (animalStore db)) \<and> distinct (map animalId (animalStore db)) \<and>
      sorted (map sceneId (sceneStore db)) \<and> distinct (map sceneId (sceneStore db)))"

text \<open>
  \<open>getAllFromIndex(store, 'by-created')\<close> lists the records in ascending order of
  \<open>createdAt\<close>, records with equal time stamps in key order: a stable sort of the store.
  \<open>getAllAnimals\<close> and \<open>getAllScenes\<close> reverse it.
\<close>

definition getAllAnimals :: "Store \<Rightarrow> Animal list" where
  "getAllAnimals db = rev (sort_key createdAt (animalStore db))"

definition saveAnimal :: "Animal \<Rightarrow> Store \<Rightarrow> Store" where
  "saveAnimal animal db = db\<lparr>animalStore := putRecord animalId animal (animalStore db)\<rparr>"

definition getAllScenes :: "Store \<Rightarrow> Scene list" where
  "getAllScenes db = rev (sort_key sceneCreatedAt (sceneStore db))"

definition saveScene :: "Scene \<Rightarrow> Store \<Rightarrow> Store" where
  "saveScene scene db = db\<lparr>sceneStore := putRecord sceneId scene (sceneStore db)\<rparr>"

definition DEFAULT_SETTINGS :: Settings where
  "DEFAULT_SETTINGS =
     \<lparr>openaiApiKey = None, imageModel = ''dall-e-3'', imageCount = 4, kidSafeMode = True,
      extraGentleMode = False\<rparr>"

definition getSettings :: "Store \<Rightarrow> Settings" where
  "getSettings db = (case settingsStore db of Some s \<Rightarrow> s | None \<Rightarrow> DEFAULT_SETTINGS)"

definition saveSettings :: "Settings \<Rightarrow> Store \<Rightarrow> Store" where
  "saveSettings s db = db\<lparr>settingsStore := Some s\<rparr>"

record ExportData =
  version :: nat
  exportedAt :: string
  exportedAnimals :: "Animal list"
  exportedScenes :: "Scene list"
  exportedSettings :: Settings

text \<open>
  \<open>exportAllData\<close>; the clock's \<open>new Date().toISOString()\<close> is the argument \<open>now\<close>. An
  absent \<open>openaiApiKey\<close> and one set to \<open>undefined\<close> are both \<open>None\<close>.
\<close>

definition exportAllData :: "Store \<Rightarrow> string \<Rightarrow> ExportData" where
  "exportAllData db now =
     (let animals = getAllAnimals db;
          scenes = getAllScenes db;
          settings = getSettings db;
          safeSettings = settings\<lparr>openaiApiKey := None\<rparr>
      in \<lparr>version = 1, exportedAt = now, exportedAnimals = animals, exportedScenes = scenes,
          exportedSettings = safeSettings\<rparr>)"

text \<open>\<open>importAllData\<close>: the two loops of \<open>put\<close>, then the settings with the stored key.\<close>

definition importAllData :: "ExportData \<Rightarrow> Store \<Rightarrow> Store" where
  "importAllData data db =
     (let db1 = foldl (\<lambda>d animal. d\<lparr>animalStore := putRecord animalId animal (animalStore d)\<rparr>)
                  db (exportedAnimals data);
          db2 = foldl (\<lambda>d scene. d\<lparr>sceneStore := putRecord sceneId scene (sceneStore d)\<rparr>)
                  db1 (exportedScenes data);
          existingSettings = getSettings db2;
          newSettings = (exportedSettings data)\<lparr>openaiApiKey := openaiApiKey existingSettings\<rparr>
      in saveSettings newSettings db2)"

definition clearAllData :: "Store \<Rightarrow> Store" where
  "clearAllData db = \<lparr>animalStore = [], sceneStore = [], settingsStore = None\<rparr>"

text \<open>A scene and a store for the scenarios below.\<close>

definition examplePicnic :: Scene where
  "examplePicnic =
     \<lparr>sceneId = ''s1'', sceneCreatedAt = 1735000002000, title = ''Picnic'', location = Meadow,
      animalIds = [''a1'', ''a2''], userDescription = ''They share a picnic'',
      promptUsed = ''prompt'', imageDataUrls = [''data:image/png;base64,ONE''],
      chosenImageDataUrl = Some ''data:image/png;base64,ONE'', caption = None,
      voiceNoteDataUrl = None\<rparr>"

definition exampleStore :: Store where
  "exampleStore =
     \<lparr>animalStore = [exampleLuna, exampleDaisy, exampleMax], sceneStore = [examplePicnic],
      settingsStore = Some (DEFAULT_SETTINGS\<lparr>openaiApiKey := Some ''sk-secret''\<rparr>)\<rparr>"


section \<open>Generation gateway (api/generate-image)\<close>

text \<open>
  The repository holds the serverless function twice. The first source
  (\<open>src/unnamed/part_005\<close>) tries Gemini, then DALL-E 3, and never reads the reference
  images of the request. The second source (the function that follows the README text in
  \<open>src/README.md\<close>) has a first step, \<open>generateWithOpenAIVision\<close>, for requests with
  reference images. Both are modelled; the names of the second end in \<open>_ref\<close>.

  A provider function talks to the network through \<open>fetch\<close>. The network is a sequence of
  replies, \<open>net n\<close> answering the \<open>n\<close>-th \<open>fetch\<close> of the run, and the run keeps a trace:
  one event for each call of a provider function, with the arguments it was given, and one
  for each \<open>fetch\<close>, with the request it sent.
\<close>

text \<open>
  What a provider sends back: nothing (\<open>fetch\<close> throws), or a status with a body. The
  body as JSON is unreadable (\<open>response.json()\<close> throws), the value \<open>null\<close> (every read of
  a field of it throws), or a value with the fields the code looks at: \<open>error.message\<close>,
  \<open>candidates[0].content.parts\<close> (empty when absent), \<open>data[0].b64_json\<close> and
  \<open>data[0].url\<close>. The last component of a reply is the body read as a blob and encoded by
  \<open>btoa\<close>, \<open>None\<close> when that throws.
\<close>

text \<open>A part of a candidate: the mime type and the data of its \<open>inlineData\<close>.\<close>

record Part =
  mimeType :: "string option"
  inlineData :: string

record ProviderPayload =
  errorMessage :: "string option"
  candidateParts :: "Part list"
  b64_json :: "string option"
  imageUrl :: "string option"

datatype JsonBody = Unreadable | JsonNull | JsonValue ProviderPayload

datatype ProviderReply = NoReply | Reply nat JsonBody "string option"

datatype ProviderRequest =
  GeminiGenerateContent string string
  | OpenAIImagesGenerations string string string
  | FetchImageUrl string

datatype ProviderFunction = Gemini | OpenAI | OpenAIVision

datatype Event =
  Called ProviderFunction string int "string list"
  | Fetched ProviderRequest

fun isFetched :: "Event \<Rightarrow> bool" where
  "isFetched (Fetched rq) = True"
| "isFetched (Called f p c r) = False"

definition fetchCount :: "Event list \<Rightarrow> nat" where
  "fetchCount trace = length (filter isFetched trace)"

definition fetch ::
  "(nat \<Rightarrow> ProviderReply) \<Rightarrow> ProviderRequest \<Rightarrow> Event list \<Rightarrow> ProviderReply \<times> Event list" where
  "fetch net rq trace = (net (fetchCount trace), trace @ [Fetched rq])"

definition failure :: "string \<Rightarrow> ImageGenerationResult" where
  "failure e = \<lparr>success = False, images = None, error = Some e\<rparr>"

text \<open>
  The loop shared by the provider functions, \<open>for (let i = 0; i < count; i++) { ... }\<close>
  around one request. The body either returns from the function (\<open>Inl\<close>, the result
  returned) or goes on, having pushed an image or not (\<open>Inr\<close>). The loop ends with the
  images collected (\<open>Inr\<close>) or with the result a body returned (\<open>Inl\<close>).
\<close>

fun requestLoop ::
  "(Event list \<Rightarrow> (ImageGenerationResult + string option) \<times> Event list) \<Rightarrow> nat \<Rightarrow>
     string list \<Rightarrow> Event list \<Rightarrow> (ImageGenerationResult + string list) \<times> Event list" where
  "requestLoop body 0 imgs trace = (Inr imgs, trace)"
| "requestLoop body (Suc n) imgs trace =
     (case body trace of
        (Inl r, trace') \<Rightarrow> (Inl r, trace')
      | (Inr img, trace') \<Rightarrow>
          requestLoop body n (imgs @ (case img of Some i \<Rightarrow> [i] | None \<Rightarrow> [])) trace')"

text \<open>After the loop: \<open>if (images.length === 0) ...; return { success: true, images }\<close>.\<close>

definition finishLoop ::
  "(ImageGenerationResult + string list) \<times> Event list \<Rightarrow> ImageGenerationResult \<times> Event list" where
  "finishLoop out =
     (case out of
        (Inl r, trace) \<Rightarrow> (r, trace)
      | (Inr imgs, trace) \<Rightarrow>
          if imgs = [] then (failure ''No images generated'', trace)
          else (\<lparr>success = True, images = Some imgs, error = None\<rparr>, trace))"

text \<open>The iterations of a loop whose bound is the number \<open>count\<close>.\<close>

definition iterations :: "int \<Rightarrow> nat" where
  "iterations count = nat count"

subsection \<open>First source: Gemini, then DALL-E 3\<close>

text \<open>The first part whose mime type starts with \<open>image/\<close>, as a data URL.\<close>

fun firstImagePart :: "Part list \<Rightarrow> string option" where
  "firstImagePart [] = None"
| "firstImagePart (p # ps) =
     (case mimeType p of
        Some m \<Rightarrow>
          if startsWith m ''image/'' then Some (''data:'' @ m @ '';base64,'' @ inlineData p)
          else firstImagePart ps
      | None \<Rightarrow> firstImagePart ps)"

text \<open>
  \<open>errorData.error?.message || ''\<close> after \<open>response.json().catch(() => ({}))\<close>, for a
  body other than \<open>null\<close>.
\<close>

definition messageOf :: "JsonBody \<Rightarrow> string" where
  "messageOf body =
     (case body of
        JsonValue d \<Rightarrow> (if truthy (errorMessage d) then the (errorMessage d) else [])
      | _ \<Rightarrow> [])"

definition geminiRequest ::
  "(nat \<Rightarrow> ProviderReply) \<Rightarrow> string \<Rightarrow> string \<Rightarrow> Event list
     \<Rightarrow> (ImageGenerationResult + string option) \<times> Event list" where
  "geminiRequest net prompt apiKey trace =
     (case fetch net (GeminiGenerateContent apiKey (''Generate an image: '' @ prompt)) trace of
        (NoReply, trace') \<Rightarrow> (Inl (failure ''Gemini connection failed''), trace')
      | (Reply status body blob, trace') \<Rightarrow>
          if \<not> response_ok status then
            (if status = 429 then (Inl (failure ''Rate limited - try again in a moment''), trace')
             else if status = 400 \<and> body = JsonNull
               then (Inl (failure ''Gemini connection failed''), trace')
             else if status = 400 \<and> str_includes (messageOf body) ''safety''
               then (Inl (failure ''Content blocked - try different description''), trace')
             else (Inl (failure (''Gemini error: '' @ showNat status)), trace'))
          else
            (case body of
               JsonValue d \<Rightarrow> (Inr (firstImagePart (candidateParts d)), trace')
             | _ \<Rightarrow> (Inl (failure ''Gemini connection failed''), trace')))"

definition generateWithGemini ::
  "(nat \<Rightarrow> ProviderReply) \<Rightarrow> string \<Rightarrow> string \<Rightarrow> int \<Rightarrow> Event list
     \<Rightarrow> ImageGenerationResult \<times> Event list" where
  "generateWithGemini net prompt apiKey count trace =
     finishLoop (requestLoop (geminiRequest net prompt apiKey) (iterations count) []
       (trace @ [Called Gemini prompt count []]))"

definition openaiRequest ::
  "(nat \<Rightarrow> ProviderReply) \<Rightarrow> string \<Rightarrow> string \<Rightarrow> Event list
     \<Rightarrow> (ImageGenerationResult + string option) \<times> Event list" where
  "openaiRequest net prompt apiKey trace =
     (case fetch net (OpenAIImagesGenerations apiKey ''dall-e-3'' prompt) trace of
        (NoReply, trace') \<Rightarrow> (Inl (failure ''OpenAI connection failed''), trace')
      | (Reply status body blob, trace') \<Rightarrow>
          if \<not> response_ok status then
            (if status = 401 then (Inl (failure ''Invalid API key''), trace')
             else if status = 429
               then (Inl (failure ''Rate limited - try again in a moment''), trace')
             else if status = 400 \<and> body = JsonNull
               then (Inl (failure ''OpenAI connection failed''), trace')
             else if status = 400
               then (Inl (failure (if messageOf body \<noteq> [] then messageOf body
                                   else ''Bad request'')), trace')
             else (Inl (failure (''OpenAI error: '' @ showNat status)), trace'))
          else
            (case body of
               JsonValue d \<Rightarrow>
                 (Inr (if truthy (b64_json d)
                       then Some (''data:image/png;base64,'' @ the (b64_json d)) else None),
                  trace')
             | _ \<Rightarrow> (Inl (failure ''OpenAI connection failed''), trace')))"

definition generateWithOpenAI ::
  "(nat \<Rightarrow> ProviderReply) \<Rightarrow> string \<Rightarrow> string \<Rightarrow> int \<Rightarrow> Event list
     \<Rightarrow> ImageGenerationResult \<times> Event list" where
  "generateWithOpenAI net prompt apiKey count trace =
     finishLoop (requestLoop (openaiRequest net prompt apiKey) (iterations count) []
       (trace @ [Called OpenAI prompt count []]))"

text \<open>
  The request as the handler sees it: its method, and its JSON body (\<open>None\<close> when
  \<open>request.json()\<close> throws or gives \<open>null\<close>, which the destructuring rejects) with the
  optional fields \<open>prompt\<close>, \<open>count\<close> and \<open>referenceImages\<close>. The environment holds
  the two keys.
\<close>

record RequestJson =
  bodyPrompt :: "string option"
  bodyCount :: "int option"
  bodyReferenceImages :: "string list option"

record HttpRequest =
  requestMethod :: string
  requestJson :: "RequestJson option"

record Env =
  GEMINI_API_KEY :: "string option"
  OPENAI_API_KEY :: "string option"

datatype ResponseJson = ErrorJson string | ResultJson ImageGenerationResult

record HttpResponse =
  statusCode :: nat
  responseJson :: ResponseJson

text \<open>The handler from \<open>// Fall back to OpenAI\<close> on.\<close>

definition fallBackToOpenAI ::
  "Env \<Rightarrow> (nat \<Rightarrow> ProviderReply) \<Rightarrow> string \<Rightarrow> int \<Rightarrow> Event list \<Rightarrow> HttpResponse \<times> Event list" where
  "fallBackToOpenAI env net p c trace =
     (if truthy (OPENAI_API_KEY env) then
        (let (result, trace') = generateWithOpenAI net p (the (OPENAI_API_KEY env)) (min c 4) trace
         in (\<lparr>statusCode = (if success result then 200 else 400),
              responseJson = ResultJson result\<rparr>, trace'))
      else
        (\<lparr>statusCode = 500, responseJson = ErrorJson ''Image generation failed''\<rparr>, trace))"

definition handler ::
  "Env \<Rightarrow> (nat \<Rightarrow> ProviderReply) \<Rightarrow> HttpRequest \<Rightarrow> Event list \<Rightarrow> HttpResponse \<times> Event list" where
  "handler env net request trace =
     (if requestMethod request \<noteq> ''POST'' then
        (\<lparr>statusCode = 405, responseJson = ErrorJson ''Method not allowed''\<rparr>, trace)
      else
        let geminiKey = GEMINI_API_KEY env; openaiKey = OPENAI_API_KEY env in
        if \<not> truthy geminiKey \<and> \<not> truthy openaiKey then
          (\<lparr>statusCode = 500, responseJson = ErrorJson ''No API key configured''\<rparr>, trace)
        else
          (case requestJson request of
             None \<Rightarrow> (\<lparr>statusCode = 500, responseJson = ErrorJson ''Server error''\<rparr>, trace)
           | Some json \<Rightarrow>
               if \<not> truthy (bodyPrompt json) then
                 (\<lparr>statusCode = 400, responseJson = ErrorJson ''Prompt is required''\<rparr>, trace)
               else
                 let p = the (bodyPrompt json);
                     c = (case bodyCount json of Some n \<Rightarrow> n | None \<Rightarrow> 1)
                 in
                 if truthy geminiKey then
                   (let (result, trace1) = generateWithGemini net p (the geminiKey) (min c 4) trace
                    in if success result
                       then (\<lparr>statusCode = 200, responseJson = ResultJson result\<rparr>, trace1)
                       else fallBackToOpenAI env net p c trace1)
                 else fallBackToOpenAI env net p c trace))"

subsection \<open>Second source: reference images first\<close>

text \<open>
  The body of the loop of \<open>generateWithOpenAIVision\<close>. The array \<open>content\<close> that it builds
  from the prompt and the reference images is not part of the request it sends.
\<close>

definition visionRequest ::
  "(nat \<Rightarrow> ProviderReply) \<Rightarrow> string \<Rightarrow> string \<Rightarrow> string list \<Rightarrow> Event list
     \<Rightarrow> (ImageGenerationResult + string option) \<times> Event list" where
  "visionRequest net prompt apiKey refs trace =
     (case fetch net (OpenAIImagesGenerations apiKey ''gpt-image-1'' prompt) trace of
        (NoReply, trace') \<Rightarrow> (Inl (failure ''OpenAI connection failed''), trace')
      | (Reply status body blob, trace') \<Rightarrow>
          if \<not> response_ok status then
            (Inl (failure (''GPT-Image error: '' @ showNat status)), trace')
          else
            (case body of
               JsonValue d \<Rightarrow>
                 if truthy (b64_json d) then
                   (Inr (Some (''data:image/png;base64,'' @ the (b64_json d))), trace')
                 else if truthy (imageUrl d) then
                   (case fetch net (FetchImageUrl (the (imageUrl d))) trace' of
                      (Reply st b (Some base64), trace'') \<Rightarrow>
                        (Inr (Some (''data:image/png;base64,'' @ base64)), trace'')
                    | (Reply st b None, trace'') \<Rightarrow> (Inr (Some (the (imageUrl d))), trace'')
                    | (NoReply, trace'') \<Rightarrow> (Inr (Some (the (imageUrl d))), trace''))
                 else (Inr None, trace')
             | _ \<Rightarrow> (Inl (failure ''OpenAI connection failed''), trace')))"

definition generateWithOpenAIVision ::
  "(nat \<Rightarrow> ProviderReply) \<Rightarrow> string \<Rightarrow> string \<Rightarrow> int \<Rightarrow> string list \<Rightarrow> Event list
     \<Rightarrow> ImageGenerationResult \<times> Event list" where
  "generateWithOpenAIVision net prompt apiKey count refs trace =
     finishLoop (requestLoop (visionRequest net prompt apiKey refs) (iterations count) []
       (trace @ [Called OpenAIVision prompt count refs]))"

definition geminiRequest_ref ::
  "(nat \<Rightarrow> ProviderReply) \<Rightarrow> string \<Rightarrow> string \<Rightarrow> Event list
     \<Rightarrow> (ImageGenerationResult + string option) \<times> Event list" where
  "geminiRequest_ref net prompt apiKey trace =
     (case fetch net (GeminiGenerateContent apiKey (''Generate an image: '' @ prompt)) trace of
        (NoReply, trace') \<Rightarrow> (Inl (failure ''Gemini connection failed''), trace')
      | (Reply status body blob, trace') \<Rightarrow>
          if \<not> response_ok status then
            (if status = 429 then (Inl (failure ''Rate limited''), trace')
             else (Inl (failure (''Gemini error: '' @ showNat status)), trace'))
          else
            (case body of
               JsonValue d \<Rightarrow> (Inr (firstImagePart (candidateParts d)), trace')
             | _ \<Rightarrow> (Inl (failure ''Gemini connection failed''), trace')))"

definition generateWithGemini_ref ::
  "(nat \<Rightarrow> ProviderReply) \<Rightarrow> string \<Rightarrow> string \<Rightarrow> int \<Rightarrow> Event list
     \<Rightarrow> ImageGenerationResult \<times> Event list" where
  "generateWithGemini_ref net prompt apiKey count trace =
     finishLoop (requestLoop (geminiRequest_ref net prompt apiKey) (iterations count) []
       (trace @ [Called Gemini prompt count []]))"

definition openaiRequest_ref ::
  "(nat \<Rightarrow> ProviderReply) \<Rightarrow> string \<Rightarrow> string \<Rightarrow> Event list
     \<Rightarrow> (ImageGenerationResult + string option) \<times> Event list" where
  "openaiRequest_ref net prompt apiKey trace =
     (case fetch net (OpenAIImagesGenerations apiKey ''dall-e-3'' prompt) trace of
        (NoReply, trace') \<Rightarrow> (Inl (failure ''OpenAI connection failed''), trace')
      | (Reply status body blob, trace') \<Rightarrow>
          if \<not> response_ok status then
            (if status = 401 then (Inl (failure ''Invalid API key''), trace')
             else if status = 429 then (Inl (failure ''Rate limited''), trace')
             else (Inl (failure (''OpenAI error: '' @ showNat status)), trace'))
          else
            (case body of
               JsonValue d \<Rightarrow>
                 (Inr (if truthy (b64_json d)
                       then Some (''data:image/png;base64,'' @ the (b64_json d)) else None),
                  trace')
             | _ \<Rightarrow> (Inl (failure ''OpenAI connection failed''), trace')))"

definition generateWithOpenAI_ref ::
  "(nat \<Rightarrow> ProviderReply) \<Rightarrow> string \<Rightarrow> string \<Rightarrow> int \<Rightarrow> Event list
     \<Rightarrow> ImageGenerationResult \<times> Event list" where
  "generateWithOpenAI_ref net prompt apiKey count trace =
     finishLoop (requestLoop (openaiRequest_ref net prompt apiKey) (iterations count) []
       (trace @ [Called OpenAI prompt count []]))"

text \<open>
  The handler of the second source, in three parts that follow its three \<open>if\<close> blocks:
  each block returns when its provider succeeds and falls to the next one otherwise.
\<close>

definition dalleStep_ref ::
  "Env \<Rightarrow> (nat \<Rightarrow> ProviderReply) \<Rightarrow> string \<Rightarrow> int \<Rightarrow> Event list \<Rightarrow> HttpResponse \<times> Event list" where
  "dalleStep_ref env net p c trace =
     (if truthy (OPENAI_API_KEY env) then
        (let (result, trace') =
               generateWithOpenAI_ref net p (the (OPENAI_API_KEY env)) (min c 4) trace
         in (\<lparr>statusCode = (if success result then 200 else 400),
              responseJson = ResultJson result\<rparr>, trace'))
      else
        (\<lparr>statusCode = 500, responseJson = ErrorJson ''Image generation failed''\<rparr>, trace))"

definition geminiStep_ref ::
  "Env \<Rightarrow> (nat \<Rightarrow> ProviderReply) \<Rightarrow> string \<Rightarrow> int \<Rightarrow> string list \<Rightarrow> Event list
     \<Rightarrow> HttpResponse \<times> Event list" where
  "geminiStep_ref env net p c refs trace =
     (if truthy (GEMINI_API_KEY env) \<and> length refs = 0 then
        (let (result, trace') =
               generateWithGemini_ref net p (the (GEMINI_API_KEY env)) (min c 4) trace
         in if success result
            then (\<lparr>statusCode = 200, responseJson = ResultJson result\<rparr>, trace')
            else dalleStep_ref env net p c trace')
      else dalleStep_ref env net p c trace)"

definition handler_ref ::
  "Env \<Rightarrow> (nat \<Rightarrow> ProviderReply) \<Rightarrow> HttpRequest \<Rightarrow> Event list \<Rightarrow> HttpResponse \<times> Event list" where
  "handler_ref env net request trace =
     (if requestMethod request \<noteq> ''POST'' then
        (\<lparr>statusCode = 405, responseJson = ErrorJson ''Method not allowed''\<rparr>, trace)
      else
        let openaiKey = OPENAI_API_KEY env; geminiKey = GEMINI_API_KEY env in
        if \<not> truthy openaiKey \<and> \<not> truthy geminiKey then
          (\<lparr>statusCode = 500, responseJson = ErrorJson ''No API key configured''\<rparr>, trace)
        else
          (case requestJson request of
             None \<Rightarrow> (\<lparr>statusCode = 500, responseJson = ErrorJson ''Server error''\<rparr>, trace)
           | Some json \<Rightarrow>
               if \<not> truthy (bodyPrompt json) then
                 (\<lparr>statusCode = 400, responseJson = ErrorJson ''Prompt is required''\<rparr>, trace)
               else
                 let p = the (bodyPrompt json);
                     c = (case bodyCount json of Some n \<Rightarrow> n | None \<Rightarrow> 1);
                     refs = (case bodyReferenceImages json of Some r \<Rightarrow> r | None \<Rightarrow> [])
                 in
                 if length refs > 0 \<and> truthy openaiKey then
                   (let (result, trace1) =
                          generateWithOpenAIVision net p (the openaiKey) (min c 4) refs trace
                    in if success result
                       then (\<lparr>statusCode = 200, responseJson = ResultJson result\<rparr>, trace1)
                       else geminiStep_ref env net p c refs trace1)
                 else geminiStep_ref env net p c refs trace))"

subsection \<open>Vocabulary for the properties of the gateway\<close>

text \<open>
  A single request fails when \<open>fetch\<close> throws, when the status is not a 2xx one, or when
  the body of a 2xx reply cannot be read as JSON or is \<open>null\<close>: the ways in which the body
  of a provider loop returns a failure.
\<close>

fun requestFails :: "ProviderReply \<Rightarrow> bool" where
  "requestFails NoReply = True"
| "requestFails (Reply status body blob) =
     (\<not> response_ok status \<or> body = Unreadable \<or> body = JsonNull)"

fun isVisionCall :: "Event \<Rightarrow> bool" where
  "isVisionCall (Called f p c refs) = (f = OpenAIVision)"
| "isVisionCall (Fetched rq) = False"

fun passesReferenceImages :: "Event \<Rightarrow> bool" where
  "passesReferenceImages (Called f p c refs) = (refs \<noteq> [])"
| "passesReferenceImages (Fetched rq) = False"

text \<open>Replies, requests and environments for the scenarios below.\<close>

definition geminiImageReply :: ProviderReply where
  "geminiImageReply =
     Reply 200
       (JsonValue \<lparr>errorMessage = None,
                   candidateParts = [\<lparr>mimeType = Some ''image/png'', inlineData = ''AAAA''\<rparr>],
                   b64_json = None, imageUrl = None\<rparr>)
       None"

definition emptyOkReply :: ProviderReply where
  "emptyOkReply =
     Reply 200
       (JsonValue \<lparr>errorMessage = None, candidateParts = [], b64_json = None,
                   imageUrl = None\<rparr>)
       None"

definition serverErrorReply :: ProviderReply where
  "serverErrorReply = Reply 500 Unreadable None"

definition bothKeys :: Env where
  "bothKeys = \<lparr>GEMINI_API_KEY = Some ''g-key'', OPENAI_API_KEY = Some ''sk-key''\<rparr>"

definition noKeys :: Env where
  "noKeys = \<lparr>GEMINI_API_KEY = None, OPENAI_API_KEY = None\<rparr>"

definition sceneRequest :: HttpRequest where
  "sceneRequest =
     \<lparr>requestMethod = ''POST'',
      requestJson = Some \<lparr>bodyPrompt = Some ''a pony'', bodyCount = Some 2,
                          bodyReferenceImages = Some [''data:image/png;base64,LUNA'']\<rparr>\<rparr>"

definition portraitRequest :: HttpRequest where
  "portraitRequest =
     \<lparr>requestMethod = ''POST'',
      requestJson = Some \<lparr>bodyPrompt = Some ''a pony'', bodyCount = Some 1,
                          bodyReferenceImages = Some []\<rparr>\<rparr>"

text \<open>A network whose first reply carries an image and whose later replies are errors.\<close>

definition oneImageThenErrors :: "nat \<Rightarrow> ProviderReply" where
  "oneImageThenErrors n = (if n = 0 then geminiImageReply else serverErrorReply)"

definition alwaysImage :: "nat \<Rightarrow> ProviderReply" where
  "alwaysImage n = geminiImageReply"

text \<open>
  Events of a run in which the first step of the specification has no part: no call of
  \<open>generateWithOpenAIVision\<close>, and no provider function given reference images.
\<close>

definition noReferenceStep :: "Event list \<Rightarrow> bool" where
  "noReferenceStep es = (\<not> list_ex isVisionCall es \<and> \<not> list_ex passesReferenceImages es)"

definition openaiImageReply :: ProviderReply where
  "openaiImageReply =
     Reply 200
       (JsonValue \<lparr>errorMessage = None, candidateParts = [], b64_json = Some ''BBBB'',
                   imageUrl = None\<rparr>)
       None"

definition alwaysOpenAIImage :: "nat \<Rightarrow> ProviderReply" where
  "alwaysOpenAIImage n = openaiImageReply"

text \<open>
  The image that a reply carries for each provider, when it is a 2xx reply with a readable
  body: the first image part of a Gemini reply, the \<open>b64_json\<close> of a DALL-E 3 reply.
\<close>

definition geminiImageOf :: "ProviderReply \<Rightarrow> string option" where
  "geminiImageOf r =
     (case r of
        Reply status (JsonValue d) blob \<Rightarrow> firstImagePart (candidateParts d)
      | _ \<Rightarrow> None)"

definition openaiImageOf :: "ProviderReply \<Rightarrow> string option" where
  "openaiImageOf r =
     (case r of
        Reply status (JsonValue d) blob \<Rightarrow>
          (if truthy (b64_json d) then Some (''data:image/png;base64,'' @ the (b64_json d))
           else None)
      | _ \<Rightarrow> None)"

text \<open>A network whose second reply is a 2xx reply without an image.\<close>

definition imageGapImage :: "nat \<Rightarrow> ProviderReply" where
  "imageGapImage n = (if n = 1 then emptyOkReply else geminiImageReply)"


section \<open>Properties of the content filter\<close>

lemma startsWith_iff: "startsWith s t \<longleftrightarrow> (\<exists>q. s = t @ q)"
  by (induction s t rule: startsWith.induct) auto

lemma str_includes_iff: "str_includes s t \<longleftrightarrow> (\<exists>p q. s = p @ t @ q)"
proof (induction s)
  case Nil
  then show ?case by auto
next
  case (Cons a s)
  show ?case
  proof
    assume "str_includes (a # s) t"
    then consider "startsWith (a # s) t" | "str_includes s t" by auto
    then show "\<exists>p q. a # s = p @ t @ q"
    proof cases
      case 1
      then obtain q where "a # s = t @ q" using startsWith_iff by blast
      then have "a # s = [] @ t @ q" by simp
      then show ?thesis by blast
    next
      case 2
      then obtain p q where "s = p @ t @ q" using Cons.IH by blast
      then have "a # s = (a # p) @ t @ q" by simp
      then show ?thesis by blast
    qed
  next
    assume "\<exists>p q. a # s = p @ t @ q"
    then obtain p q where pq: "a # s = p @ t @ q" by blast
    show "str_includes (a # s) t"
    proof (cases p)
      case Nil
      with pq have "a # s = t @ q" by simp
      then have "startsWith (a # s) t" using startsWith_iff by blast
      then show ?thesis by simp
    next
      case (Cons b p')
      with pq have "s = p' @ t @ q" by simp
      then have "str_includes s t" using Cons.IH by blast
      then show ?thesis by simp
    qed
  qed
qed

lemma toLowerCase_append: "toLowerCase (a @ b) = toLowerCase a @ toLowerCase b"
  by (simp add: toLowerCase_def)

lemma str_includes_lower_iff: "str_includes (toLowerCase txt) t \<longleftrightarrow> occursAnyCase t txt"
proof
  assume "str_includes (toLowerCase txt) t"
  then obtain p q where pq: "toLowerCase txt = p @ t @ q"
    using str_includes_iff by blast
  let ?pre = "take (length p) txt"
  let ?w = "take (length t) (drop (length p) txt)"
  let ?suf = "drop (length t) (drop (length p) txt)"
  have "txt = ?pre @ ?w @ ?suf"
    by (simp only: append_take_drop_id)
  moreover have "toLowerCase ?w = t"
  proof -
    have "toLowerCase ?w = take (length t) (drop (length p) (toLowerCase txt))"
      by (simp add: toLowerCase_def take_map drop_map)
    also have "\<dots> = t" by (simp add: pq)
    finally show ?thesis .
  qed
  ultimately show "occursAnyCase t txt"
    unfolding occursAnyCase_def by blast
next
  assume "occursAnyCase t txt"
  then obtain pre w suf where "txt = pre @ w @ suf" "toLowerCase w = t"
    unfolding occursAnyCase_def by blast
  then have "toLowerCase txt = toLowerCase pre @ t @ toLowerCase suf"
    by (simp add: toLowerCase_append)
  then show "str_includes (toLowerCase txt) t"
    using str_includes_iff by blast
qed

lemma checkBlocked_find:
  "checkBlocked ts lt g =
     map_option (blockedResult g) (find (\<lambda>t. str_includes lt t) ts)"
  by (induction ts) auto

lemma checkMild_allowed: "checkMild ts lt txt = Some r \<Longrightarrow> isAllowed r"
  by (induction ts) (auto split: if_splits)

lemma blockedResult_denied: "isAllowed (blockedResult g t) = False"
  by (simp add: blockedResult_def)

text \<open>
  Claim C2. Every text in which a term of the blocklist occurs, in any casing and at any
  position, is denied by \<open>checkContent\<close> under both values of the extra-gentle flag. The
  outcome is the denial built from the first term of the list, in list order, that occurs
  in the text: no later term, and no count of matches, has any part in it.
\<close>

theorem checkContent_blocks_any_casing:
  assumes "t \<in> set BLOCKED_TERMS" and "toLowerCase w = t"
  shows "isAllowed (checkContent (pre @ w @ suf) extraGentle) = False \<and>
         (\<exists>i<length BLOCKED_TERMS.
            occursAnyCase (BLOCKED_TERMS ! i) (pre @ w @ suf) \<and>
            (\<forall>j<i. \<not> occursAnyCase (BLOCKED_TERMS ! j) (pre @ w @ suf)) \<and>
            checkContent (pre @ w @ suf) extraGentle =
              blockedResult extraGentle (BLOCKED_TERMS ! i))"
proof -
  let ?txt = "pre @ w @ suf"
  let ?P = "\<lambda>t. str_includes (toLowerCase ?txt) t"
  have "occursAnyCase t ?txt"
    unfolding occursAnyCase_def using assms(2) by blast
  then have "?P t" by (simp add: str_includes_lower_iff)
  with assms(1) have "find ?P BLOCKED_TERMS \<noteq> None"
    by (auto simp: find_None_iff)
  then obtain t0 where t0: "find ?P BLOCKED_TERMS = Some t0" by blast
  then obtain i where i: "i < length BLOCKED_TERMS" "?P (BLOCKED_TERMS ! i)"
      "t0 = BLOCKED_TERMS ! i" "\<forall>j<i. \<not> ?P (BLOCKED_TERMS ! j)"
    unfolding find_Some_iff by blast
  have res: "checkContent ?txt extraGentle = blockedResult extraGentle (BLOCKED_TERMS ! i)"
    using t0 i(3) by (simp add: checkContent_def checkBlocked_find)
  have "isAllowed (checkContent ?txt extraGentle) = False"
    by (simp only: res blockedResult_denied)
  moreover have "occursAnyCase (BLOCKED_TERMS ! i) ?txt"
    using i(2) by (simp only: str_includes_lower_iff)
  moreover have "\<forall>j<i. \<not> occursAnyCase (BLOCKED_TERMS ! j) ?txt"
    using i(4) by (simp only: str_includes_lower_iff)
  ultimately show ?thesis using i(1) res by blast
qed

theorem checkContent_blocks_any_casing_witness:
  "''fight'' \<in> set BLOCKED_TERMS \<and> toLowerCase ''FiGht'' = ''fight'' \<and>
   isAllowed (checkContent (''The ponies '' @ ''FiGht'' @ '' at dawn'') True) = False \<and>
   isAllowed (checkContent (''The ponies '' @ ''FiGht'' @ '' at dawn'') False) = False"
proof -
  have m: "''fight'' \<in> set BLOCKED_TERMS" by (simp add: BLOCKED_TERMS_def)
  have l: "toLowerCase ''FiGht'' = ''fight''" by code_simp
  show ?thesis
    using m l checkContent_blocks_any_casing [OF m l, of "''The ponies ''" "'' at dawn''" True]
      checkContent_blocks_any_casing [OF m l, of "''The ponies ''" "'' at dawn''" False]
    by blast
qed

text \<open>
  Claim C7. On the input \<open>fight\<close>, \<open>checkContent\<close> without the extra-gentle flag denies
  with the generic redirect message, which names neither \<open>fight\<close> nor \<open>play\<close>; with the
  flag it denies with the message that offers \<open>play\<close> in place of \<open>fight\<close>.
\<close>

theorem checkContent_fight:
  "checkContent ''fight'' False =
     \<lparr>isAllowed = False,
      friendlyMessage = Some (''Hmm, let's keep our stories happy and friendly! Try describing something nice that could happen instead. '' @ [CHR 0xF0, CHR 0x9F, CHR 0x8C, CHR 0x88]),
      cleanedText = None\<rparr> \<and>
   checkContent ''fight'' True =
     \<lparr>isAllowed = False,
      friendlyMessage = Some (''Oops! Let's use friendlier words. Instead of '' @ [CHR 0x22] @ ''fight'' @ [CHR 0x22] @ '', how about '' @ [CHR 0x22] @ ''play'' @ [CHR 0x22] @ ''? '' @ [CHR 0xF0, CHR 0x9F, CHR 0x8C, CHR 0x9F]),
      cleanedText = None\<rparr> \<and>
   GENTLE_ALTERNATIVES ''fight'' = Some ''play'' \<and>
   str_includes genericMessage ''fight'' = False \<and>
   str_includes genericMessage ''play'' = False"
  by code_simp

text \<open>
  Claim C9. The extra-gentle flag never changes the decision: for every text,
  \<open>checkContent\<close> allows it with the flag exactly when it allows it without. The flag
  only selects the message that goes with the decision.
\<close>

theorem checkContent_decision_independent_of_extraGentle:
  "isAllowed (checkContent txt True) = isAllowed (checkContent txt False)"
proof (cases "find (\<lambda>t. str_includes (toLowerCase txt) t) BLOCKED_TERMS")
  case None
  then show ?thesis
    by (auto simp: checkContent_def checkBlocked_find split: option.splits
        dest: checkMild_allowed)
next
  case (Some t)
  then show ?thesis
    by (simp add: checkContent_def checkBlocked_find blockedResult_denied)
qed

section \<open>Properties of the prompt builder\<close>

lemma describeAnimal_clauses:
  "describeAnimal a i = nameClause a @ renderAppearance (appearanceOf a i) @ traitClause a"
  by (simp add: describeAnimal_def animalParts_def appearanceOf_def nameClause_def
      traitClause_def Let_def)

lemma animalImage_colors [simp]: "animalImage (a\<lparr>colors := c\<rparr>) = animalImage a"
  by (simp add: animalImage_def)

lemma describeAnimal_ignores_colors:
  "truthy (animalImage a) \<Longrightarrow> describeAnimal (a\<lparr>colors := c\<rparr>) i = describeAnimal a i"
  by (simp add: describeAnimal_def animalParts_def Let_def)

lemma length_sceneAppearances: "length (sceneAppearances animals) = length animals"
  by (simp add: sceneAppearances_def)

lemma count_appearances:
  "length (filter isInlineColors (map (\<lambda>(index, animal). appearanceOf animal index) (enumerate n animals)))
     = length (filter (\<lambda>x. \<not> truthy (animalImage x)) animals) \<and>
   length (filter isReference (map (\<lambda>(index, animal). appearanceOf animal index) (enumerate n animals)))
     = length (filter (\<lambda>x. truthy (animalImage x)) animals)"
  by (induction animals arbitrary: n) (auto simp: appearanceOf_def)

text \<open>
  Claim C3. In \<open>buildScenePrompt\<close> the descriptor of a character is its name clause, its
  appearance clause and its trait clause. For a character with a portrait or a sticker
  the appearance clause is the mention of a reference image and the colours have no part
  in the descriptor: replacing them leaves it unchanged. For a character with neither
  image the appearance clause is the full inline colour text: the primary colour, then
  the secondary colour and the markings when present. The prompt joins these descriptors
  with \<open>; \<close> between its fixed paragraphs. With three characters of which exactly one
  lacks an image, the descriptors hold exactly one inline colour clause and two
  reference-image clauses.
\<close>

theorem buildScenePrompt_appearance_clauses:
  "describeAnimal a i = nameClause a @ renderAppearance (appearanceOf a i) @ traitClause a \<and>
   (truthy (animalImage a) \<longrightarrow>
      appearanceOf a i = ReferenceImage (i + 1) \<and>
      describeAnimal (a\<lparr>colors := c\<rparr>) i = describeAnimal a i) \<and>
   (\<not> truthy (animalImage a) \<longrightarrow> appearanceOf a i = InlineColors (colors a)) \<and>
   buildScenePrompt animals loc description =
     ART_STYLE @ ''.'' @ NL @ NL @
     ''Scene setting: '' @ LOCATION_DESCRIPTIONS loc @ ''.'' @ NL @ NL @
     ''Characters: '' @
     join ''; '' (map (\<lambda>(index, x). nameClause x @ renderAppearance (appearanceOf x index) @ traitClause x)
                     (enumerate 0 animals)) @
     ''.'' @ NL @ NL @
     ''What's happening: '' @ description @ NL @ NL @
     ''IMPORTANT: Draw the characters to match the reference images provided. Keep their appearance consistent with the references.'' @ NL @ NL @
     buildKidSafePromptSuffix \<and>
   (length animals = 3 \<and> length (filter (\<lambda>x. \<not> truthy (animalImage x)) animals) = 1 \<longrightarrow>
      length (filter isInlineColors (sceneAppearances animals)) = 1 \<and>
      length (filter isReference (sceneAppearances animals)) = 2)"
proof -
  have A: "describeAnimal a i = nameClause a @ renderAppearance (appearanceOf a i) @ traitClause a"
    by (rule describeAnimal_clauses)
  have B: "truthy (animalImage a) \<longrightarrow>
      appearanceOf a i = ReferenceImage (i + 1) \<and>
      describeAnimal (a\<lparr>colors := c\<rparr>) i = describeAnimal a i"
    by (simp add: appearanceOf_def describeAnimal_ignores_colors)
  have C: "\<not> truthy (animalImage a) \<longrightarrow> appearanceOf a i = InlineColors (colors a)"
    by (simp add: appearanceOf_def)
  have D: "buildScenePrompt animals loc description =
     ART_STYLE @ ''.'' @ NL @ NL @
     ''Scene setting: '' @ LOCATION_DESCRIPTIONS loc @ ''.'' @ NL @ NL @
     ''Characters: '' @
     join ''; '' (map (\<lambda>(index, x). nameClause x @ renderAppearance (appearanceOf x index) @ traitClause x)
                     (enumerate 0 animals)) @
     ''.'' @ NL @ NL @
     ''What's happening: '' @ description @ NL @ NL @
     ''IMPORTANT: Draw the characters to match the reference images provided. Keep their appearance consistent with the references.'' @ NL @ NL @
     buildKidSafePromptSuffix"
    unfolding buildScenePrompt_def animalDescriptions_def describeAnimal_clauses by (rule refl)
  have E: "length animals = 3 \<and> length (filter (\<lambda>x. \<not> truthy (animalImage x)) animals) = 1 \<longrightarrow>
      length (filter isInlineColors (sceneAppearances animals)) = 1 \<and>
      length (filter isReference (sceneAppearances animals)) = 2"
  proof
    assume h: "length animals = 3 \<and> length (filter (\<lambda>x. \<not> truthy (animalImage x)) animals) = 1"
    have "length (filter (\<lambda>x. truthy (animalImage x)) animals) +
          length (filter (\<lambda>x. \<not> truthy (animalImage x)) animals) = length animals"
      by (rule sum_length_filter_compl)
    with h have "length (filter (\<lambda>x. truthy (animalImage x)) animals) = 2" by simp
    with h show "length (filter isInlineColors (sceneAppearances animals)) = 1 \<and>
      length (filter isReference (sceneAppearances animals)) = 2"
      unfolding sceneAppearances_def using count_appearances [of 0 animals] by simp
  qed
  from A B C D E show ?thesis by blast
qed

theorem buildScenePrompt_appearance_clauses_witness:
  "length [exampleLuna, exampleDaisy, exampleMax] = 3 \<and>
   length (filter (\<lambda>x. \<not> truthy (animalImage x)) [exampleLuna, exampleDaisy, exampleMax]) = 1 \<and>
   truthy (animalImage exampleLuna) \<and>
   \<not> truthy (animalImage exampleDaisy) \<and>
   length (filter isInlineColors (sceneAppearances [exampleLuna, exampleDaisy, exampleMax])) = 1 \<and>
   length (filter isReference (sceneAppearances [exampleLuna, exampleDaisy, exampleMax])) = 2 \<and>
   appearanceOf exampleLuna 0 = ReferenceImage 1 \<and>
   appearanceOf exampleDaisy 1 = InlineColors (colors exampleDaisy) \<and>
   animalDescriptions [exampleLuna, exampleDaisy, exampleMax] =
     ''Luna the horse (shown in reference image 1), who is brave and loves apples; '' @
     ''Daisy the cow (golden with white markings, a star on the forehead), who is kind; '' @
     ''Max the dog (shown in reference image 3), who is playful'' \<and>
   countOccurrences
     (buildScenePrompt [exampleLuna, exampleDaisy, exampleMax] Meadow ''They share a picnic'')
     '' (shown in reference image '' = 2 \<and>
   countOccurrences
     (buildScenePrompt [exampleLuna, exampleDaisy, exampleMax] Meadow ''They share a picnic'')
     '' (golden with white markings, a star on the forehead)'' = 1"
proof -
  let ?as = "[exampleLuna, exampleDaisy, exampleMax]"
  have h1: "length ?as = 3" by simp
  have h2: "length (filter (\<lambda>x. \<not> truthy (animalImage x)) ?as) = 1" by code_simp
  have h3: "truthy (animalImage exampleLuna)" by code_simp
  have h4: "\<not> truthy (animalImage exampleDaisy)" by code_simp
  have d: "animalDescriptions ?as =
     ''Luna the horse (shown in reference image 1), who is brave and loves apples; '' @
     ''Daisy the cow (golden with white markings, a star on the forehead), who is kind; '' @
     ''Max the dog (shown in reference image 3), who is playful''"
    by code_simp
  have c1: "countOccurrences (buildScenePrompt ?as Meadow ''They share a picnic'')
     '' (shown in reference image '' = 2" by code_simp
  have c2: "countOccurrences (buildScenePrompt ?as Meadow ''They share a picnic'')
     '' (golden with white markings, a star on the forehead)'' = 1" by code_simp
  from h1 h2 h3 h4 d c1 c2
    buildScenePrompt_appearance_clauses [of exampleLuna 0 undefined ?as Meadow "''x''"]
    buildScenePrompt_appearance_clauses [of exampleDaisy 1 undefined ?as Meadow "''x''"]
  show ?thesis by simp
qed

lemma join_nth_split:
  "j < length ds \<Longrightarrow> \<exists>pre post. join sep ds = pre @ ds ! j @ post"
proof (induction sep ds arbitrary: j rule: join.induct)
  case (1 sep)
  then show ?case by simp
next
  case (2 sep x)
  then have "join sep [x] = [] @ [x] ! j @ []" by simp
  then show ?case by blast
next
  case (3 sep x y ys)
  show ?case
  proof (cases j)
    case 0
    then have "join sep (x # y # ys) = [] @ (x # y # ys) ! j @ (sep @ join sep (y # ys))" by simp
    then show ?thesis by blast
  next
    case (Suc k)
    with "3.prems" have "k < length (y # ys)" by simp
    from "3.IH" [OF this] obtain pre post where
      "join sep (y # ys) = pre @ (y # ys) ! k @ post" by blast
    then have "join sep (x # y # ys) = (x @ sep @ pre) @ (x # y # ys) ! j @ post"
      using Suc by simp
    then show ?thesis by blast
  qed
qed


text \<open>
  Claim C10. The prompt that \<open>buildScenePrompt\<close> returns holds, between its fixed
  paragraphs, the descriptors of the characters joined by \<open>; \<close>, and the number in a
  character's reference-image clause is the character's position in the input list,
  counted from one. \<open>generateSceneImages\<close> sends that prompt to the server together with
  the list \<open>getAnimalImages\<close> computes, which keeps only the images of the characters
  that have one, in list order: a server that answers with the reference images it was
  sent answers with exactly that list. So when a character without an image stands before
  a character with one, the number cited for the latter in the prompt is greater than the
  position of its image among the images supplied.
\<close>

theorem reference_number_exceeds_supplied_position:
  assumes "j < length animals" and "truthy (animalImage (animals ! j))"
    and "i < j" and "\<not> truthy (animalImage (animals ! i))"
  shows "buildScenePrompt animals loc description =
           ART_STYLE @ ''.'' @ NL @ NL @
           ''Scene setting: '' @ LOCATION_DESCRIPTIONS loc @ ''.'' @ NL @ NL @
           ''Characters: '' @
           join ''; '' (map (\<lambda>(index, animal). describeAnimal animal index)
                           (enumerate 0 animals)) @
           ''.'' @ NL @ NL @
           ''What's happening: '' @ description @ NL @ NL @
           ''IMPORTANT: Draw the characters to match the reference images provided. Keep their appearance consistent with the references.'' @ NL @ NL @
           buildKidSafePromptSuffix \<and>
         map (\<lambda>(index, animal). describeAnimal animal index) (enumerate 0 animals) ! j =
           name (animals ! j) @ '' the '' @ toLowerCase (speciesName (species (animals ! j))) @
           '' (shown in reference image '' @ showNat (j + 1) @ '')'' @
           traitClause (animals ! j) \<and>
         (\<exists>pre post. buildScenePrompt animals loc description =
            pre @ name (animals ! j) @ '' the '' @
            toLowerCase (speciesName (species (animals ! j))) @
            '' (shown in reference image '' @ showNat (j + 1) @ '')'' @
            traitClause (animals ! j) @ post) \<and>
         getAnimalImages animals =
           map (\<lambda>a. the (animalImage a)) (filter (\<lambda>a. truthy (animalImage a)) animals) \<and>
         generateSceneImages animals loc description settings server =
           (generateImages (buildScenePrompt animals loc description) settings
              (imageCount settings) (Some (getAnimalImages animals)) server,
            buildScenePrompt animals loc description) \<and>
         generateSceneImages animals loc description settings
             (\<lambda>r. Responded 200
                    (Some \<lparr>payloadError = None, payloadImages = Some (reqReferenceImages r)\<rparr>)) =
           (\<lparr>success = True, images = Some (getAnimalImages animals), error = None\<rparr>,
            buildScenePrompt animals loc description) \<and>
         generateSceneImages animals loc description settings
             (\<lambda>r. Responded 200
                    (Some \<lparr>payloadError = None, payloadImages = Some [reqPrompt r]\<rparr>)) =
           (\<lparr>success = True, images = Some [buildScenePrompt animals loc description],
              error = None\<rparr>,
            buildScenePrompt animals loc description) \<and>
         length (getAnimalImages (take j animals)) < length (getAnimalImages animals) \<and>
         getAnimalImages animals ! length (getAnimalImages (take j animals)) =
           the (animalImage (animals ! j)) \<and>
         length (getAnimalImages (take j animals)) + 1 < j + 1"
proof -
  let ?P = "\<lambda>a. truthy (animalImage a)"
  let ?ds = "map (\<lambda>(index, animal). describeAnimal animal index) (enumerate 0 animals)"
  let ?dj = "name (animals ! j) @ '' the '' @ toLowerCase (speciesName (species (animals ! j))) @
           '' (shown in reference image '' @ showNat (j + 1) @ '')'' @
           traitClause (animals ! j)"
  have G: "\<And>xs. getAnimalImages xs = map (\<lambda>a. the (animalImage a)) (filter ?P xs)"
    by (simp add: getAnimalImages_def filter_map comp_def)
  have P: "buildScenePrompt animals loc description =
           ART_STYLE @ ''.'' @ NL @ NL @
           ''Scene setting: '' @ LOCATION_DESCRIPTIONS loc @ ''.'' @ NL @ NL @
           ''Characters: '' @ join ''; '' ?ds @
           ''.'' @ NL @ NL @
           ''What's happening: '' @ description @ NL @ NL @
           ''IMPORTANT: Draw the characters to match the reference images provided. Keep their appearance consistent with the references.'' @ NL @ NL @
           buildKidSafePromptSuffix"
    unfolding buildScenePrompt_def animalDescriptions_def by (rule refl)
  have split: "animals = take j animals @ (animals ! j) # drop (Suc j) animals"
    using assms(1) by (simp add: id_take_nth_drop)
  have desc: "?ds ! j = describeAnimal (animals ! j) j"
    using assms(1) by (simp add: nth_enumerate_eq)
  have d2: "describeAnimal (animals ! j) j = ?dj"
    using assms(2)
    by (simp add: describeAnimal_def animalParts_def traitClause_def Let_def)
  have D: "?ds ! j = ?dj" using desc d2 by simp
  have "j < length ?ds" using assms(1) by simp
  from join_nth_split [OF this, of "''; ''"] obtain p1 p2 where
    "join ''; '' ?ds = p1 @ ?ds ! j @ p2" by blast
  then have J: "join ''; '' ?ds = p1 @ ?dj @ p2" by (simp only: D)
  have C: "\<exists>pre post. buildScenePrompt animals loc description = pre @ ?dj @ post"
  proof -
    have "buildScenePrompt animals loc description =
        (ART_STYLE @ ''.'' @ NL @ NL @
           ''Scene setting: '' @ LOCATION_DESCRIPTIONS loc @ ''.'' @ NL @ NL @
           ''Characters: '' @ p1) @ ?dj @ (p2 @ ''.'' @ NL @ NL @
           ''What's happening: '' @ description @ NL @ NL @
           ''IMPORTANT: Draw the characters to match the reference images provided. Keep their appearance consistent with the references.'' @ NL @ NL @
           buildKidSafePromptSuffix)"
      unfolding P J by (simp only: append_assoc)
    then show ?thesis by blast
  qed
  have C': "\<exists>pre post. buildScenePrompt animals loc description =
            pre @ name (animals ! j) @ '' the '' @
            toLowerCase (speciesName (species (animals ! j))) @
            '' (shown in reference image '' @ showNat (j + 1) @ '')'' @
            traitClause (animals ! j) @ post"
    using C by (simp only: append_assoc)
  have f: "filter ?P animals = filter ?P (take j animals) @ (animals ! j) # filter ?P (drop (Suc j) animals)"
    using assms(2) by (subst split) simp
  have len: "length (getAnimalImages (take j animals)) < length (getAnimalImages animals)"
    by (simp add: G f)
  have nth: "getAnimalImages animals ! length (getAnimalImages (take j animals)) =
           the (animalImage (animals ! j))"
    by (simp add: G f nth_append)
  have ne: "getAnimalImages animals \<noteq> []" using len by auto
  have ij: "i < length (take j animals)" using assms(1,3) by simp
  have "take j animals ! i = animals ! i" using assms(3) by simp
  then have "\<not> ?P (take j animals ! i)" using assms(4) by simp
  then have "length (filter ?P (take j animals)) < length (take j animals)"
    using ij by (metis length_filter_less nth_mem)
  then have lt: "length (getAnimalImages (take j animals)) + 1 < j + 1"
    unfolding G using assms(1) by simp
  have S1: "generateSceneImages animals loc description settings server =
           (generateImages (buildScenePrompt animals loc description) settings
              (imageCount settings) (Some (getAnimalImages animals)) server,
            buildScenePrompt animals loc description)"
    by (simp add: generateSceneImages_def Let_def)
  have S2: "generateSceneImages animals loc description settings
             (\<lambda>r. Responded 200
                    (Some \<lparr>payloadError = None, payloadImages = Some (reqReferenceImages r)\<rparr>)) =
           (\<lparr>success = True, images = Some (getAnimalImages animals), error = None\<rparr>,
            buildScenePrompt animals loc description)"
    using ne by (simp add: generateSceneImages_def generateImages_def Let_def response_ok_def)
  have S3: "generateSceneImages animals loc description settings
             (\<lambda>r. Responded 200
                    (Some \<lparr>payloadError = None, payloadImages = Some [reqPrompt r]\<rparr>)) =
           (\<lparr>success = True, images = Some [buildScenePrompt animals loc description],
              error = None\<rparr>,
            buildScenePrompt animals loc description)"
    by (simp add: generateSceneImages_def generateImages_def Let_def response_ok_def)
  from P D C' G [of animals] S1 S2 S3 len nth lt show ?thesis by (intro conjI)
qed

theorem reference_number_exceeds_supplied_position_witness:
  "(1::nat) < length [exampleDaisy, exampleMax] \<and>
   truthy (animalImage ([exampleDaisy, exampleMax] ! 1)) \<and>
   (0::nat) < 1 \<and>
   \<not> truthy (animalImage ([exampleDaisy, exampleMax] ! 0)) \<and>
   animalDescriptions [exampleDaisy, exampleMax] =
     ''Daisy the cow (golden with white markings, a star on the forehead), who is kind; '' @
     ''Max the dog (shown in reference image 2), who is playful'' \<and>
   countOccurrences (buildScenePrompt [exampleDaisy, exampleMax] Meadow ''They share a picnic'')
     ''Max the dog (shown in reference image 2), who is playful'' = 1 \<and>
   generateSceneImages [exampleDaisy, exampleMax] Meadow ''They share a picnic'' DEFAULT_SETTINGS
       (\<lambda>r. Responded 200
              (Some \<lparr>payloadError = None, payloadImages = Some (reqReferenceImages r)\<rparr>)) =
     (\<lparr>success = True, images = Some [''data:image/png;base64,MAX''], error = None\<rparr>,
      buildScenePrompt [exampleDaisy, exampleMax] Meadow ''They share a picnic'') \<and>
   getAnimalImages [exampleDaisy, exampleMax] ! 0 = ''data:image/png;base64,MAX'' \<and>
   length (getAnimalImages (take 1 [exampleDaisy, exampleMax])) + 1 < (1::nat) + 1"
proof -
  let ?as = "[exampleDaisy, exampleMax]"
  have h1: "(1::nat) < length ?as" by simp
  have h2: "truthy (animalImage (?as ! 1))" by code_simp
  have h3: "(0::nat) < 1" by simp
  have h4: "\<not> truthy (animalImage (?as ! 0))" by code_simp
  have d: "animalDescriptions ?as =
     ''Daisy the cow (golden with white markings, a star on the forehead), who is kind; '' @
     ''Max the dog (shown in reference image 2), who is playful''" by code_simp
  have c: "countOccurrences (buildScenePrompt ?as Meadow ''They share a picnic'')
     ''Max the dog (shown in reference image 2), who is playful'' = 1" by code_simp
  have g: "getAnimalImages ?as = [''data:image/png;base64,MAX'']" by code_simp
  have g0: "getAnimalImages ?as ! 0 = ''data:image/png;base64,MAX''" by (simp add: g)
  note T = reference_number_exceeds_supplied_position [OF h1 h2 h3 h4,
      of Meadow "''They share a picnic''" DEFAULT_SETTINGS "\<lambda>r. FetchThrows"]
  have s: "generateSceneImages ?as Meadow ''They share a picnic'' DEFAULT_SETTINGS
       (\<lambda>r. Responded 200
              (Some \<lparr>payloadError = None, payloadImages = Some (reqReferenceImages r)\<rparr>)) =
     (\<lparr>success = True, images = Some [''data:image/png;base64,MAX''], error = None\<rparr>,
      buildScenePrompt ?as Meadow ''They share a picnic'')"
    using T g by simp
  have lt: "length (getAnimalImages (take 1 ?as)) + 1 < (1::nat) + 1"
    using T by blast
  from h1 h2 h3 h4 d c s g0 lt show ?thesis by (intro conjI)
qed

section \<open>Properties of the generation client\<close>

text \<open>
  Claim C5. When the server answers \<open>generateImages\<close> with a 2xx status and a payload
  whose \<open>images\<close> array is missing or empty, the result is a failure with the message
  that no images were created. Whatever the server answers, a successful result carries a
  list of images that is not empty.
\<close>

theorem generateImages_no_images_is_failure:
  "(server \<lparr>reqPrompt = prompt, reqCount = count,
             reqReferenceImages = (case referenceImages of Some r \<Rightarrow> r | None \<Rightarrow> [])\<rparr>
      = Responded status (Some payload) \<and>
    response_ok status \<and>
    (payloadImages payload = None \<or> payloadImages payload = Some []) \<longrightarrow>
      generateImages prompt settings count referenceImages server =
        \<lparr>success = False, images = None, error = Some noImagesMessage\<rparr>) \<and>
   (success (generateImages prompt settings count referenceImages server) \<longrightarrow>
      (\<exists>imgs. images (generateImages prompt settings count referenceImages server) = Some imgs \<and>
              imgs \<noteq> []))"
proof -
  let ?req = "\<lparr>reqPrompt = prompt, reqCount = count,
             reqReferenceImages = (case referenceImages of Some r \<Rightarrow> r | None \<Rightarrow> [])\<rparr>"
  have A: "server ?req = Responded status (Some payload) \<and> response_ok status \<and>
      (payloadImages payload = None \<or> payloadImages payload = Some []) \<longrightarrow>
      generateImages prompt settings count referenceImages server =
        \<lparr>success = False, images = None, error = Some noImagesMessage\<rparr>"
    by (auto simp: generateImages_def)
  have B: "success (generateImages prompt settings count referenceImages server) \<longrightarrow>
      (\<exists>imgs. images (generateImages prompt settings count referenceImages server) = Some imgs \<and>
              imgs \<noteq> [])"
  proof (cases "server ?req")
    case FetchThrows
    then show ?thesis by (simp add: generateImages_def)
  next
    case (Responded st body)
    then show ?thesis
      by (cases body) (auto simp: generateImages_def)
  qed
  from A B show ?thesis by blast
qed

theorem generateImages_no_images_is_failure_witness:
  "response_ok 200 \<and>
   generateImages ''a pony'' DEFAULT_SETTINGS 4 (Some [])
       (\<lambda>r. Responded 200 (Some \<lparr>payloadError = None, payloadImages = Some []\<rparr>)) =
     \<lparr>success = False, images = None, error = Some noImagesMessage\<rparr> \<and>
   generateImages ''a pony'' DEFAULT_SETTINGS 4 None
       (\<lambda>r. Responded 204 (Some \<lparr>payloadError = None, payloadImages = None\<rparr>)) =
     \<lparr>success = False, images = None, error = Some noImagesMessage\<rparr> \<and>
   success (generateImages ''a pony'' DEFAULT_SETTINGS 4 None
       (\<lambda>r. Responded 200 (Some \<lparr>payloadError = None, payloadImages = Some [''data:x'']\<rparr>))) \<and>
   images (generateImages ''a pony'' DEFAULT_SETTINGS 4 None
       (\<lambda>r. Responded 200 (Some \<lparr>payloadError = None, payloadImages = Some [''data:x'']\<rparr>))) =
     Some [''data:x'']"
proof -
  have ok: "response_ok 200" "response_ok 204" by (simp_all add: response_ok_def)
  have i: "images (generateImages ''a pony'' DEFAULT_SETTINGS 4 None
       (\<lambda>r. Responded 200 (Some \<lparr>payloadError = None, payloadImages = Some [''data:x'']\<rparr>))) =
     Some [''data:x'']"
    by (simp add: generateImages_def ok)
  have s: "success (generateImages ''a pony'' DEFAULT_SETTINGS 4 None
       (\<lambda>r. Responded 200 (Some \<lparr>payloadError = None, payloadImages = Some [''data:x'']\<rparr>)))"
    by (simp add: generateImages_def ok)
  from ok s i
    generateImages_no_images_is_failure [of "\<lambda>r. Responded 200 (Some \<lparr>payloadError = None, payloadImages = Some []\<rparr>)"
      "''a pony''" 4 "Some []" 200 "\<lparr>payloadError = None, payloadImages = Some []\<rparr>" DEFAULT_SETTINGS]
    generateImages_no_images_is_failure [of "\<lambda>r. Responded 204 (Some \<lparr>payloadError = None, payloadImages = None\<rparr>)"
      "''a pony''" 4 None 204 "\<lparr>payloadError = None, payloadImages = None\<rparr>" DEFAULT_SETTINGS]
    generateImages_no_images_is_failure [of "\<lambda>r. Responded 200 (Some \<lparr>payloadError = None, payloadImages = Some [''data:x'']\<rparr>)"
      "''a pony''" 4 None 200 "\<lparr>payloadError = None, payloadImages = Some [''data:x'']\<rparr>" DEFAULT_SETTINGS]
  show ?thesis by auto
qed

section \<open>Properties of export and import\<close>

lemma mem_putRecord:
  "sorted (map k xs) \<Longrightarrow> distinct (map k xs) \<Longrightarrow>
   y \<in> set (putRecord k r xs) \<longleftrightarrow> y = r \<or> (y \<in> set xs \<and> k y \<noteq> k r)"
proof (induction xs)
  case Nil
  then show ?case by simp
next
  case (Cons x xs)
  then have IH: "y \<in> set (putRecord k r xs) \<longleftrightarrow> y = r \<or> (y \<in> set xs \<and> k y \<noteq> k r)"
    by simp
  from Cons.prems have ge: "\<And>z. z \<in> set xs \<Longrightarrow> k x \<le> k z"
    and ne: "\<And>z. z \<in> set xs \<Longrightarrow> k x \<noteq> k z"
    by auto
  show ?case
  proof (cases "k r < k x")
    case True
    have "y \<in> set xs \<Longrightarrow> k y \<noteq> k r" using ge [of y] True by auto
    moreover have "k x \<noteq> k r" using True by simp
    ultimately show ?thesis using True by auto
  next
    case False
    show ?thesis
    proof (cases "k r = k x")
      case True
      have "y \<in> set xs \<Longrightarrow> k y \<noteq> k r" using ne [of y] True by auto
      with True show ?thesis by auto
    next
      case neq: False
      then have "k x \<noteq> k r" by simp
      with False neq IH show ?thesis by auto
    qed
  qed
qed

lemma set_putRecord:
  "sorted (map k xs) \<Longrightarrow> distinct (map k xs) \<Longrightarrow>
   set (putRecord k r xs) = insert r {x \<in> set xs. k x \<noteq> k r}"
  using mem_putRecord [of k xs _ r] by blast

lemma sorted_putRecord:
  "sorted (map k xs) \<Longrightarrow> distinct (map k xs) \<Longrightarrow>
   sorted (map k (putRecord k r xs)) \<and> distinct (map k (putRecord k r xs))"
proof (induction xs)
  case Nil
  then show ?case by simp
next
  case (Cons x xs)
  then have IH: "sorted (map k (putRecord k r xs))" "distinct (map k (putRecord k r xs))"
    by simp_all
  from Cons.prems have ge: "\<And>z. z \<in> set xs \<Longrightarrow> k x \<le> k z"
    and ne: "\<And>z. z \<in> set xs \<Longrightarrow> k x \<noteq> k z"
    and sd: "sorted (map k xs)" "distinct (map k xs)"
    by auto
  have M: "\<And>y. y \<in> set (putRecord k r xs) \<longleftrightarrow> y = r \<or> (y \<in> set xs \<and> k y \<noteq> k r)"
    using sd by (rule mem_putRecord)
  show ?case
  proof (cases "k r < k x")
    case True
    have "\<And>z. z \<in> set xs \<Longrightarrow> k r < k z" using ge True by fastforce
    then have a: "\<And>z. z \<in> set xs \<Longrightarrow> k r \<le> k z" "\<And>z. z \<in> set xs \<Longrightarrow> k r \<noteq> k z"
      by fastforce+
    have "putRecord k r (x # xs) = r # x # xs" using True by simp
    moreover have "sorted (map k (r # x # xs))" using True a(1) Cons.prems(1) by auto
    moreover have "distinct (map k (r # x # xs))" using True a(2) Cons.prems(2) by auto
    ultimately show ?thesis by simp
  next
    case False
    show ?thesis
    proof (cases "k r = k x")
      case True
      then have "putRecord k r (x # xs) = r # xs" by simp
      moreover have "map k (r # xs) = map k (x # xs)" using True by simp
      ultimately show ?thesis using Cons.prems by simp
    next
      case neq: False
      with False have lt: "k x < k r" by simp
      have p: "putRecord k r (x # xs) = x # putRecord k r xs" using False neq by simp
      have b: "\<And>z. z \<in> set (putRecord k r xs) \<Longrightarrow> k x \<le> k z \<and> k x \<noteq> k z"
        using M ge ne lt by fastforce
      have "sorted (map k (x # putRecord k r xs))" using IH(1) b by auto
      moreover have "distinct (map k (x # putRecord k r xs))" using IH(2) b by auto
      ultimately show ?thesis using p by simp
    qed
  qed
qed

lemma foldl_putRecord:
  "sorted (map k st) \<Longrightarrow> distinct (map k st) \<Longrightarrow> distinct (map k rs) \<Longrightarrow>
   (\<And>a b. a \<in> set st \<Longrightarrow> b \<in> set rs \<Longrightarrow> k a \<noteq> k b) \<Longrightarrow>
   sorted (map k (foldl (\<lambda>s r. putRecord k r s) st rs)) \<and>
   distinct (map k (foldl (\<lambda>s r. putRecord k r s) st rs)) \<and>
   set (foldl (\<lambda>s r. putRecord k r s) st rs) = set st \<union> set rs"
proof (induction rs arbitrary: st)
  case Nil
  show ?case using Nil.prems(1,2) by simp
next
  case (Cons r rs)
  have s1: "sorted (map k (putRecord k r st))" "distinct (map k (putRecord k r st))"
    using sorted_putRecord [OF Cons.prems(1,2), of r] by simp_all
  have rin: "r \<in> set (r # rs)" by simp
  have fresh: "\<And>a. a \<in> set st \<Longrightarrow> k a \<noteq> k r"
    by (rule Cons.prems(4) [OF _ rin])
  have mem: "\<And>y. y \<in> set (putRecord k r st) \<longleftrightarrow> y = r \<or> y \<in> set st"
    using mem_putRecord [OF Cons.prems(1,2)] fresh by blast
  have d: "distinct (map k rs)" and rnotin: "k r \<notin> k ` set rs"
    using Cons.prems(3) by simp_all
  have rnew: "\<And>b. b \<in> set rs \<Longrightarrow> k r \<noteq> k b"
    using rnotin by blast
  have disj: "\<And>a b. a \<in> set (putRecord k r st) \<Longrightarrow> b \<in> set rs \<Longrightarrow> k a \<noteq> k b"
  proof -
    fix a b
    assume a: "a \<in> set (putRecord k r st)" and b: "b \<in> set rs"
    from a mem have "a = r \<or> a \<in> set st" by blast
    then show "k a \<noteq> k b"
    proof
      assume "a = r"
      then show ?thesis using rnew [OF b] by simp
    next
      assume ast: "a \<in> set st"
      have "b \<in> set (r # rs)" using b by simp
      then show ?thesis by (rule Cons.prems(4) [OF ast])
    qed
  qed
  have IH: "sorted (map k (foldl (\<lambda>s r. putRecord k r s) (putRecord k r st) rs)) \<and>
   distinct (map k (foldl (\<lambda>s r. putRecord k r s) (putRecord k r st) rs)) \<and>
   set (foldl (\<lambda>s r. putRecord k r s) (putRecord k r st) rs) = set (putRecord k r st) \<union> set rs"
    by (rule Cons.IH [OF s1 d disj])
  have "set (putRecord k r st) = insert r (set st)" using mem by blast
  then have u: "set (putRecord k r st) \<union> set rs = set st \<union> set (r # rs)" by simp
  have f: "foldl (\<lambda>s r. putRecord k r s) st (r # rs) =
      foldl (\<lambda>s r. putRecord k r s) (putRecord k r st) rs" by simp
  show ?case unfolding f using IH u by simp
qed

lemma roundtrip_list:
  assumes "sorted (map k xs)" and "distinct (map k xs)" and "set ys = set xs"
    and "distinct (map k ys)"
  shows "foldl (\<lambda>s r. putRecord k r s) [] ys = xs"
proof -
  let ?zs = "foldl (\<lambda>s r. putRecord k r s) [] ys"
  have z: "sorted (map k ?zs)" "distinct (map k ?zs)" "set ?zs = set ys"
    using foldl_putRecord [of k "[]" ys] assms(4) by simp_all
  have inj: "inj_on k (set ?zs \<union> set xs)"
    using assms(2,3) z(3) by (simp add: distinct_map)
  show ?thesis
    by (rule map_sorted_distinct_set_unique [OF inj z(1) z(2) assms(1) assms(2)])
       (simp add: z(3) assms(3))
qed

lemma foldl_animalStore:
  "foldl (\<lambda>d animal. d\<lparr>animalStore := putRecord animalId animal (animalStore d)\<rparr>) db as =
   db\<lparr>animalStore := foldl (\<lambda>s r. putRecord animalId r s) (animalStore db) as\<rparr>"
  by (induction as arbitrary: db) simp_all

lemma foldl_sceneStore:
  "foldl (\<lambda>d scene. d\<lparr>sceneStore := putRecord sceneId scene (sceneStore d)\<rparr>) db ss =
   db\<lparr>sceneStore := foldl (\<lambda>s r. putRecord sceneId r s) (sceneStore db) ss\<rparr>"
  by (induction ss arbitrary: db) simp_all

lemma importAllData_key:
  "openaiApiKey (getSettings (importAllData data db)) = openaiApiKey (getSettings db)"
  by (simp add: importAllData_def Let_def saveSettings_def getSettings_def
      foldl_animalStore foldl_sceneStore)

lemma distinct_map_rev_sort:
  "distinct (map k xs) \<Longrightarrow> distinct (map k (rev (sort_key c xs)))"
  by (simp add: distinct_map)

text \<open>
  The empty store is ordered, and saving a record and importing a document keep a store
  ordered: the stores that the operations can reach are ordered stores.
\<close>

lemma storeOrdered_empty: "storeOrdered emptyStore"
  by (simp add: storeOrdered_def emptyStore_def)

lemma storeOrdered_saveAnimal: "storeOrdered db \<Longrightarrow> storeOrdered (saveAnimal animal db)"
  using sorted_putRecord [of animalId "animalStore db" animal]
  by (simp add: storeOrdered_def saveAnimal_def)

lemma storeOrdered_saveScene: "storeOrdered db \<Longrightarrow> storeOrdered (saveScene scene db)"
  using sorted_putRecord [of sceneId "sceneStore db" scene]
  by (simp add: storeOrdered_def saveScene_def)

lemma foldl_putRecord_sorted:
  "sorted (map k st) \<Longrightarrow> distinct (map k st) \<Longrightarrow>
   sorted (map k (foldl (\<lambda>s r. putRecord k r s) st rs)) \<and>
   distinct (map k (foldl (\<lambda>s r. putRecord k r s) st rs))"
proof (induction rs arbitrary: st)
  case Nil
  then show ?case by simp
next
  case (Cons r rs)
  have "sorted (map k (putRecord k r st))" "distinct (map k (putRecord k r st))"
    using sorted_putRecord [OF Cons.prems, of r] by simp_all
  then show ?case using Cons.IH [of "putRecord k r st"] by simp
qed

lemma storeOrdered_importAllData:
  "storeOrdered db \<Longrightarrow> storeOrdered (importAllData data db)"
  using foldl_putRecord_sorted [of animalId "animalStore db" "exportedAnimals data"]
    foldl_putRecord_sorted [of sceneId "sceneStore db" "exportedScenes data"]
  by (simp add: storeOrdered_def importAllData_def Let_def saveSettings_def
      foldl_animalStore foldl_sceneStore)

text \<open>
  Claim C8. For every ordered store, importing the document that \<open>exportAllData\<close> produces
  into an empty store gives back the same animal and scene collections (the object stores
  are equal, and so are the lists \<open>getAllAnimals\<close> and \<open>getAllScenes\<close> read from them).
  The exported settings hold no credential. Importing any document into any store leaves
  the stored credential as it was: the settings saved by the import carry the credential
  that \<open>getSettings\<close> read before.
\<close>

theorem export_import_roundtrip:
  assumes "storeOrdered db"
  shows "animalStore (importAllData (exportAllData db now) emptyStore) = animalStore db \<and>
         sceneStore (importAllData (exportAllData db now) emptyStore) = sceneStore db \<and>
         getAllAnimals (importAllData (exportAllData db now) emptyStore) = getAllAnimals db \<and>
         getAllScenes (importAllData (exportAllData db now) emptyStore) = getAllScenes db \<and>
         openaiApiKey (exportedSettings (exportAllData db now)) = None \<and>
         map_option openaiApiKey (settingsStore (importAllData data db)) =
           Some (openaiApiKey (getSettings db))"
proof -
  from assms have a: "sorted (map animalId (animalStore db))" "distinct (map animalId (animalStore db))"
    and s: "sorted (map sceneId (sceneStore db))" "distinct (map sceneId (sceneStore db))"
    by (simp_all add: storeOrdered_def)
  have A: "foldl (\<lambda>s r. putRecord animalId r s) [] (getAllAnimals db) = animalStore db"
    unfolding getAllAnimals_def
    by (rule roundtrip_list [OF a]) (simp_all add: distinct_map_rev_sort a)
  have S: "foldl (\<lambda>s r. putRecord sceneId r s) [] (getAllScenes db) = sceneStore db"
    unfolding getAllScenes_def
    by (rule roundtrip_list [OF s]) (simp_all add: distinct_map_rev_sort s)
  have 1: "animalStore (importAllData (exportAllData db now) emptyStore) = animalStore db"
    by (simp add: importAllData_def exportAllData_def Let_def saveSettings_def emptyStore_def
        foldl_animalStore foldl_sceneStore A)
  have 2: "sceneStore (importAllData (exportAllData db now) emptyStore) = sceneStore db"
    by (simp add: importAllData_def exportAllData_def Let_def saveSettings_def emptyStore_def
        foldl_animalStore foldl_sceneStore S)
  have 3: "openaiApiKey (exportedSettings (exportAllData db now)) = None"
    by (simp add: exportAllData_def Let_def)
  have 4: "map_option openaiApiKey (settingsStore (importAllData data db)) =
           Some (openaiApiKey (getSettings db))"
    by (simp add: importAllData_def Let_def saveSettings_def getSettings_def
        foldl_animalStore foldl_sceneStore)
  from 1 2 3 4 show ?thesis by (simp add: getAllAnimals_def getAllScenes_def)
qed

theorem export_import_roundtrip_witness:
  "storeOrdered exampleStore \<and>
   exportedAnimals (exportAllData exampleStore ''2024-12-25T08:00:00.000Z'') =
     [exampleMax, exampleDaisy, exampleLuna] \<and>
   animalStore (importAllData (exportAllData exampleStore ''2024-12-25T08:00:00.000Z'') emptyStore) =
     [exampleLuna, exampleDaisy, exampleMax] \<and>
   sceneStore (importAllData (exportAllData exampleStore ''2024-12-25T08:00:00.000Z'') emptyStore) =
     [examplePicnic] \<and>
   openaiApiKey (getSettings exampleStore) = Some ''sk-secret'' \<and>
   openaiApiKey (exportedSettings (exportAllData exampleStore ''2024-12-25T08:00:00.000Z'')) = None \<and>
   map_option openaiApiKey
     (settingsStore (importAllData (exportAllData emptyStore ''2024-12-25T08:00:00.000Z'') exampleStore)) =
     Some (Some ''sk-secret'')"
proof -
  have o: "storeOrdered exampleStore"
    by (simp add: storeOrdered_def exampleStore_def exampleLuna_def exampleDaisy_def
        exampleMax_def examplePicnic_def)
  have e: "exportedAnimals (exportAllData exampleStore ''2024-12-25T08:00:00.000Z'') =
     [exampleMax, exampleDaisy, exampleLuna]"
    by (simp add: exportAllData_def Let_def getAllAnimals_def exampleStore_def exampleLuna_def
        exampleDaisy_def exampleMax_def)
  have a: "animalStore exampleStore = [exampleLuna, exampleDaisy, exampleMax]"
    and s: "sceneStore exampleStore = [examplePicnic]"
    and k: "openaiApiKey (getSettings exampleStore) = Some ''sk-secret''"
    by (simp_all add: exampleStore_def getSettings_def)
  from export_import_roundtrip [OF o, of "''2024-12-25T08:00:00.000Z''"
      "exportAllData emptyStore ''2024-12-25T08:00:00.000Z''"] o e a s k
  show ?thesis by simp
qed

section \<open>Properties of the generation gateway\<close>

lemma fetchCount_append [simp]: "fetchCount (a @ b) = fetchCount a + fetchCount b"
  by (simp add: fetchCount_def)

lemma fetchCount_Fetched [simp]: "fetchCount [Fetched rq] = 1"
  by (simp add: fetchCount_def)

lemma fetchCount_Called [simp]: "fetchCount [Called f p c r] = 0"
  by (simp add: fetchCount_def)

lemma fetchCount_Nil [simp]: "fetchCount [] = 0"
  by (simp add: fetchCount_def)


lemma map_filter_upt_Suc:
  "List.map_filter g [0..<Suc n] =
     (case g 0 of Some i \<Rightarrow> [i] | None \<Rightarrow> []) @ List.map_filter (\<lambda>i. g (Suc i)) [0..<n]"
proof -
  have "[0..<Suc n] = 0 # map Suc [0..<n]"
    by (simp add: upt_conv_Cons map_Suc_upt del: upt_Suc)
  then have "List.map_filter g [0..<Suc n] = List.map_filter g (0 # map Suc [0..<n])"
    by (simp only:)
  also have "\<dots> = (case g 0 of Some i \<Rightarrow> [i] | None \<Rightarrow> []) @
      List.map_filter g (map Suc [0..<n])"
    by (simp add: List.map_filter_simps split: option.splits)
  also have "List.map_filter g (map Suc [0..<n]) = List.map_filter (\<lambda>i. g (Suc i)) [0..<n]"
    by (simp add: List.map_filter_def filter_map comp_def)
  finally show ?thesis .
qed

lemma requestLoop_all_ok:
  assumes B: "\<And>tr. body tr = (f (net (fetchCount tr)), tr @ [Fetched rq])"
    and ok: "\<forall>i<n. f (net (fetchCount tr + i)) = Inr (img (net (fetchCount tr + i)))"
  shows "requestLoop body n imgs tr =
           (Inr (imgs @ List.map_filter (\<lambda>i. img (net (fetchCount tr + i))) [0..<n]),
            tr @ replicate n (Fetched rq))"
  using ok
proof (induction n arbitrary: imgs tr)
  case 0
  then show ?case by (simp add: List.map_filter_simps)
next
  case (Suc n)
  from Suc.prems have r0: "f (net (fetchCount tr)) = Inr (img (net (fetchCount tr)))"
    by (metis add_0_right zero_less_Suc)
  let ?tr = "tr @ [Fetched rq]"
  let ?imgs = "imgs @ (case img (net (fetchCount tr)) of Some i \<Rightarrow> [i] | None \<Rightarrow> [])"
  have shift: "\<forall>i<n. f (net (fetchCount ?tr + i)) = Inr (img (net (fetchCount ?tr + i)))"
  proof (intro allI impI)
    fix i assume "i < n"
    then have "Suc i < Suc n" by simp
    with Suc.prems have "f (net (fetchCount tr + Suc i)) = Inr (img (net (fetchCount tr + Suc i)))"
      by blast
    then show "f (net (fetchCount ?tr + i)) = Inr (img (net (fetchCount ?tr + i)))" by simp
  qed
  have IH: "requestLoop body n ?imgs ?tr =
      (Inr (?imgs @ List.map_filter (\<lambda>i. img (net (fetchCount ?tr + i))) [0..<n]),
       ?tr @ replicate n (Fetched rq))"
    by (rule Suc.IH [OF shift])
  have step: "requestLoop body (Suc n) imgs tr = requestLoop body n ?imgs ?tr"
    by (simp add: B [of tr] r0)
  have m: "List.map_filter (\<lambda>i. img (net (fetchCount tr + i))) [0..<Suc n] =
      (case img (net (fetchCount tr)) of Some i \<Rightarrow> [i] | None \<Rightarrow> []) @
      List.map_filter (\<lambda>i. img (net (fetchCount ?tr + i))) [0..<n]"
    using map_filter_upt_Suc [of "\<lambda>i. img (net (fetchCount tr + i))" n] by simp
  show ?case unfolding step IH m by simp
qed

lemma requestLoop_first_failure:
  assumes B: "\<And>tr. body tr = (f (net (fetchCount tr)), tr @ [Fetched rq])"
    and j: "j < n" and bad: "isl (f (net (fetchCount tr + j)))"
    and before: "\<forall>i<j. \<not> isl (f (net (fetchCount tr + i)))"
  shows "requestLoop body n imgs tr =
           (Inl (projl (f (net (fetchCount tr + j)))), tr @ replicate (Suc j) (Fetched rq))"
  using j bad before
proof (induction j arbitrary: n imgs tr)
  case 0
  then obtain m where n: "n = Suc m" by (cases n) simp_all
  from 0 obtain r where r: "f (net (fetchCount tr)) = Inl r"
    by (cases "f (net (fetchCount tr))") simp_all
  show ?case by (simp add: n B [of tr] r)
next
  case (Suc j)
  then obtain m where n: "n = Suc m" and jm: "j < m" by (cases n) simp_all
  from Suc.prems(3) have "\<not> isl (f (net (fetchCount tr + 0)))" by blast
  then obtain img where img: "f (net (fetchCount tr)) = Inr img"
    by (cases "f (net (fetchCount tr))") simp_all
  have bad': "isl (f (net (fetchCount (tr @ [Fetched rq]) + j)))"
    using Suc.prems(2) by simp
  have before': "\<forall>i<j. \<not> isl (f (net (fetchCount (tr @ [Fetched rq]) + i)))"
  proof (intro allI impI)
    fix i assume "i < j"
    then have "Suc i < Suc j" by simp
    with Suc.prems(3) have "\<not> isl (f (net (fetchCount tr + Suc i)))" by blast
    then show "\<not> isl (f (net (fetchCount (tr @ [Fetched rq]) + i)))" by simp
  qed
  have "requestLoop body m (imgs @ (case img of Some i \<Rightarrow> [i] | None \<Rightarrow> [])) (tr @ [Fetched rq]) =
          (Inl (projl (f (net (fetchCount (tr @ [Fetched rq]) + j)))),
           (tr @ [Fetched rq]) @ replicate (Suc j) (Fetched rq))"
    by (rule Suc.IH [OF jm bad' before'])
  then show ?case by (simp add: n B [of tr] img)
qed

lemma finishLoop_Inl [simp]: "finishLoop (Inl r, tr) = (r, tr)"
  by (simp add: finishLoop_def)

lemma finishLoop_Inr [simp]:
  "finishLoop (Inr imgs, tr) =
     (if imgs = [] then (failure ''No images generated'', tr)
      else (\<lparr>success = True, images = Some imgs, error = None\<rparr>, tr))"
  by (simp add: finishLoop_def)

lemma failure_simps [simp]: "success (failure e) = False" "images (failure e) = None"
  "error (failure e) = Some e"
  by (simp_all add: failure_def)

lemma least_failure:
  assumes "\<exists>i<n. P (i::nat)"
  shows "\<exists>j<n. P j \<and> (\<forall>i<j. \<not> P i)"
proof -
  from assms obtain i where i: "i < n" "P i" by blast
  then have "P (LEAST j. P j)" by (metis LeastI)
  moreover have "(LEAST j. P j) \<le> i" using i(2) by (rule Least_le)
  moreover have "\<forall>m<(LEAST j. P j). \<not> P m" using not_less_Least by blast
  ultimately show ?thesis using i(1) by (metis le_less_trans)
qed


lemma provider_attempt:
  assumes B: "\<And>tr. body tr = (f (net (fetchCount tr)), tr @ [Fetched rq])"
    and F: "\<And>r. isl (f r) = requestFails r"
    and R: "\<And>r. isl (f r) \<Longrightarrow> success (projl (f r)) = False \<and> images (projl (f r)) = None"
    and I: "\<And>r. \<not> requestFails r \<Longrightarrow> f r = Inr (img r)"
  shows "((\<exists>i<n. requestFails (net (fetchCount tr + i))) \<longrightarrow>
            success (fst (finishLoop (requestLoop body n [] tr))) = False \<and>
            images (fst (finishLoop (requestLoop body n [] tr))) = None \<and>
            (\<exists>j<n. requestFails (net (fetchCount tr + j)) \<and>
                   (\<forall>i<j. \<not> requestFails (net (fetchCount tr + i))) \<and>
                   snd (finishLoop (requestLoop body n [] tr)) =
                     tr @ replicate (Suc j) (Fetched rq))) \<and>
         ((\<forall>i<n. \<not> requestFails (net (fetchCount tr + i))) \<longrightarrow>
            finishLoop (requestLoop body n [] tr) =
              (if List.map_filter (\<lambda>i. img (net (fetchCount tr + i))) [0..<n] = []
               then failure ''No images generated''
               else \<lparr>success = True,
                     images = Some (List.map_filter (\<lambda>i. img (net (fetchCount tr + i))) [0..<n]),
                     error = None\<rparr>,
               tr @ replicate n (Fetched rq)))"
proof (intro conjI impI)
  assume "\<exists>i<n. requestFails (net (fetchCount tr + i))"
  then obtain j where j: "j < n" "requestFails (net (fetchCount tr + j))"
    "\<forall>i<j. \<not> requestFails (net (fetchCount tr + i))"
    using least_failure [of n "\<lambda>i. requestFails (net (fetchCount tr + i))"] by blast
  have bad: "isl (f (net (fetchCount tr + j)))" using j(2) by (simp add: F)
  have before: "\<forall>i<j. \<not> isl (f (net (fetchCount tr + i)))" using j(3) by (simp add: F)
  have L: "requestLoop body n [] tr =
           (Inl (projl (f (net (fetchCount tr + j)))), tr @ replicate (Suc j) (Fetched rq))"
    by (rule requestLoop_first_failure [where f = f and net = net and body = body and rq = rq, OF B j(1) bad before])
  show "success (fst (finishLoop (requestLoop body n [] tr))) = False"
    using R [OF bad] by (simp add: L)
  show "images (fst (finishLoop (requestLoop body n [] tr))) = None"
    using R [OF bad] by (simp add: L)
  have "snd (finishLoop (requestLoop body n [] tr)) = tr @ replicate (Suc j) (Fetched rq)"
    by (simp add: L)
  with j show "\<exists>j<n. requestFails (net (fetchCount tr + j)) \<and>
                   (\<forall>i<j. \<not> requestFails (net (fetchCount tr + i))) \<and>
                   snd (finishLoop (requestLoop body n [] tr)) =
                     tr @ replicate (Suc j) (Fetched rq)" by blast
next
  assume a: "\<forall>i<n. \<not> requestFails (net (fetchCount tr + i))"
  have ok: "\<forall>i<n. f (net (fetchCount tr + i)) = Inr (img (net (fetchCount tr + i)))"
    using a I by blast
  have "requestLoop body n [] tr =
           (Inr ([] @ List.map_filter (\<lambda>i. img (net (fetchCount tr + i))) [0..<n]),
            tr @ replicate n (Fetched rq))"
    by (rule requestLoop_all_ok [where f = f and net = net and body = body and rq = rq
          and img = img, OF B ok])
  then show "finishLoop (requestLoop body n [] tr) =
              (if List.map_filter (\<lambda>i. img (net (fetchCount tr + i))) [0..<n] = []
               then failure ''No images generated''
               else \<lparr>success = True,
                     images = Some (List.map_filter (\<lambda>i. img (net (fetchCount tr + i))) [0..<n]),
                     error = None\<rparr>,
               tr @ replicate n (Fetched rq))"
    by simp
qed

lemma geminiRequest_reply:
  "geminiRequest net p k tr =
     (fst (geminiRequest (\<lambda>_. net (fetchCount tr)) p k []),
      tr @ [Fetched (GeminiGenerateContent k (''Generate an image: '' @ p))])"
  by (simp add: geminiRequest_def fetch_def split: ProviderReply.splits option.splits JsonBody.splits)

lemma geminiRequest_fails:
  "isl (fst (geminiRequest (\<lambda>_. r) p k [])) = requestFails r"
  by (cases r) (simp_all add: geminiRequest_def fetch_def split: option.splits JsonBody.splits)

lemma geminiRequest_failure:
  "isl (fst (geminiRequest (\<lambda>_. r) p k [])) \<Longrightarrow>
   success (projl (fst (geminiRequest (\<lambda>_. r) p k []))) = False \<and>
   images (projl (fst (geminiRequest (\<lambda>_. r) p k []))) = None"
  by (cases r) (auto simp: geminiRequest_def fetch_def split: option.splits if_splits JsonBody.splits)

lemma geminiRequest_image:
  "\<not> requestFails r \<Longrightarrow> fst (geminiRequest (\<lambda>_. r) p k []) = Inr (geminiImageOf r)"
  by (cases r)
     (auto simp: geminiRequest_def fetch_def geminiImageOf_def split: JsonBody.splits)

lemma openaiRequest_reply:
  "openaiRequest net p k tr =
     (fst (openaiRequest (\<lambda>_. net (fetchCount tr)) p k []),
      tr @ [Fetched (OpenAIImagesGenerations k ''dall-e-3'' p)])"
  by (simp add: openaiRequest_def fetch_def split: ProviderReply.splits option.splits JsonBody.splits)

lemma openaiRequest_fails:
  "isl (fst (openaiRequest (\<lambda>_. r) p k [])) = requestFails r"
  by (cases r) (simp_all add: openaiRequest_def fetch_def split: option.splits JsonBody.splits)

lemma openaiRequest_failure:
  "isl (fst (openaiRequest (\<lambda>_. r) p k [])) \<Longrightarrow>
   success (projl (fst (openaiRequest (\<lambda>_. r) p k []))) = False \<and>
   images (projl (fst (openaiRequest (\<lambda>_. r) p k []))) = None"
  by (cases r) (auto simp: openaiRequest_def fetch_def split: option.splits if_splits JsonBody.splits)

lemma openaiRequest_image:
  "\<not> requestFails r \<Longrightarrow> fst (openaiRequest (\<lambda>_. r) p k []) = Inr (openaiImageOf r)"
  by (cases r)
     (auto simp: openaiRequest_def fetch_def openaiImageOf_def split: JsonBody.splits)

text \<open>
  Claim C4. A provider attempt sends its requests one after the other, \<open>iterations count\<close>
  of them when none fails. A request fails when the fetch throws, when the status is not
  2xx, or when the body of a 2xx reply cannot be read as an object. At the first failing
  request the attempt stops: its result is a failure without images, whatever the earlier
  replies carried, and the trace holds the requests up to that one. The handler of the first
  source then runs the DALL-E 3 step on a failed Gemini attempt. A 2xx reply without an image
  is not a failure: the loop goes on, so an attempt with no failing request returns the images
  of the replies that carry one, which may be fewer than the requests sent, and it fails, with
  \<open>No images generated\<close>, only when no reply carries an image. The last theorem of the three
  evaluates such an attempt: three requests, no failing one, two images returned.
\<close>

theorem provider_attempt_outcome:
  "((\<exists>i<iterations count. requestFails (net (fetchCount trace + i))) \<longrightarrow>
      success (fst (generateWithGemini net prompt apiKey count trace)) = False \<and>
      images (fst (generateWithGemini net prompt apiKey count trace)) = None \<and>
      (\<exists>j<iterations count.
         requestFails (net (fetchCount trace + j)) \<and>
         (\<forall>i<j. \<not> requestFails (net (fetchCount trace + i))) \<and>
         snd (generateWithGemini net prompt apiKey count trace) =
           trace @ Called Gemini prompt count [] #
             replicate (Suc j)
               (Fetched (GeminiGenerateContent apiKey (''Generate an image: '' @ prompt))))) \<and>
   ((\<forall>i<iterations count. \<not> requestFails (net (fetchCount trace + i))) \<longrightarrow>
      generateWithGemini net prompt apiKey count trace =
        (if List.map_filter (\<lambda>i. geminiImageOf (net (fetchCount trace + i)))
              [0..<iterations count] = []
         then failure ''No images generated''
         else \<lparr>success = True,
               images = Some (List.map_filter (\<lambda>i. geminiImageOf (net (fetchCount trace + i)))
                                [0..<iterations count]),
               error = None\<rparr>,
         trace @ Called Gemini prompt count [] #
           replicate (iterations count)
             (Fetched (GeminiGenerateContent apiKey (''Generate an image: '' @ prompt))))) \<and>
   ((\<exists>i<iterations count. requestFails (net (fetchCount trace + i))) \<longrightarrow>
      success (fst (generateWithOpenAI net prompt apiKey count trace)) = False \<and>
      images (fst (generateWithOpenAI net prompt apiKey count trace)) = None \<and>
      (\<exists>j<iterations count.
         requestFails (net (fetchCount trace + j)) \<and>
         (\<forall>i<j. \<not> requestFails (net (fetchCount trace + i))) \<and>
         snd (generateWithOpenAI net prompt apiKey count trace) =
           trace @ Called OpenAI prompt count [] #
             replicate (Suc j) (Fetched (OpenAIImagesGenerations apiKey ''dall-e-3'' prompt)))) \<and>
   ((\<forall>i<iterations count. \<not> requestFails (net (fetchCount trace + i))) \<longrightarrow>
      generateWithOpenAI net prompt apiKey count trace =
        (if List.map_filter (\<lambda>i. openaiImageOf (net (fetchCount trace + i)))
              [0..<iterations count] = []
         then failure ''No images generated''
         else \<lparr>success = True,
               images = Some (List.map_filter (\<lambda>i. openaiImageOf (net (fetchCount trace + i)))
                                [0..<iterations count]),
               error = None\<rparr>,
         trace @ Called OpenAI prompt count [] #
           replicate (iterations count)
             (Fetched (OpenAIImagesGenerations apiKey ''dall-e-3'' prompt)))) \<and>
   (requestMethod request = ''POST'' \<and> requestJson request = Some json \<and>
    truthy (bodyPrompt json) \<and> truthy (GEMINI_API_KEY env) \<and>
    \<not> success (fst (generateWithGemini net (the (bodyPrompt json)) (the (GEMINI_API_KEY env))
                     (min (case bodyCount json of Some n \<Rightarrow> n | None \<Rightarrow> 1) 4) trace)) \<longrightarrow>
      handler env net request trace =
        fallBackToOpenAI env net (the (bodyPrompt json))
          (case bodyCount json of Some n \<Rightarrow> n | None \<Rightarrow> 1)
          (snd (generateWithGemini net (the (bodyPrompt json)) (the (GEMINI_API_KEY env))
                 (min (case bodyCount json of Some n \<Rightarrow> n | None \<Rightarrow> 1) 4) trace)))"
proof -
  have PG: "\<And>tr. geminiRequest net prompt apiKey tr =
      ((\<lambda>r. fst (geminiRequest (\<lambda>_. r) prompt apiKey [])) (net (fetchCount tr)),
       tr @ [Fetched (GeminiGenerateContent apiKey (''Generate an image: '' @ prompt))])"
    by (rule geminiRequest_reply)
  have PO: "\<And>tr. openaiRequest net prompt apiKey tr =
      ((\<lambda>r. fst (openaiRequest (\<lambda>_. r) prompt apiKey [])) (net (fetchCount tr)),
       tr @ [Fetched (OpenAIImagesGenerations apiKey ''dall-e-3'' prompt)])"
    by (rule openaiRequest_reply)
  note g = provider_attempt [where f = "\<lambda>r. fst (geminiRequest (\<lambda>_. r) prompt apiKey [])"
          and net = net and body = "geminiRequest net prompt apiKey"
          and rq = "GeminiGenerateContent apiKey (''Generate an image: '' @ prompt)"
          and tr = "trace @ [Called Gemini prompt count []]" and n = "iterations count"
          and img = geminiImageOf,
          OF PG geminiRequest_fails geminiRequest_failure geminiRequest_image]
  note o = provider_attempt [where f = "\<lambda>r. fst (openaiRequest (\<lambda>_. r) prompt apiKey [])"
          and net = net and body = "openaiRequest net prompt apiKey"
          and rq = "OpenAIImagesGenerations apiKey ''dall-e-3'' prompt"
          and tr = "trace @ [Called OpenAI prompt count []]" and n = "iterations count"
          and img = openaiImageOf,
          OF PO openaiRequest_fails openaiRequest_failure openaiRequest_image]
  have G1: "((\<exists>i<iterations count. requestFails (net (fetchCount trace + i))) \<longrightarrow>
      success (fst (generateWithGemini net prompt apiKey count trace)) = False \<and>
      images (fst (generateWithGemini net prompt apiKey count trace)) = None \<and>
      (\<exists>j<iterations count.
         requestFails (net (fetchCount trace + j)) \<and>
         (\<forall>i<j. \<not> requestFails (net (fetchCount trace + i))) \<and>
         snd (generateWithGemini net prompt apiKey count trace) =
           trace @ Called Gemini prompt count [] #
             replicate (Suc j)
               (Fetched (GeminiGenerateContent apiKey (''Generate an image: '' @ prompt)))))"
    using g by (simp add: generateWithGemini_def)
  have G2: "((\<forall>i<iterations count. \<not> requestFails (net (fetchCount trace + i))) \<longrightarrow>
      generateWithGemini net prompt apiKey count trace =
        (if List.map_filter (\<lambda>i. geminiImageOf (net (fetchCount trace + i)))
              [0..<iterations count] = []
         then failure ''No images generated''
         else \<lparr>success = True,
               images = Some (List.map_filter (\<lambda>i. geminiImageOf (net (fetchCount trace + i)))
                                [0..<iterations count]),
               error = None\<rparr>,
         trace @ Called Gemini prompt count [] #
           replicate (iterations count)
             (Fetched (GeminiGenerateContent apiKey (''Generate an image: '' @ prompt)))))"
    using g by (simp add: generateWithGemini_def)
  have O1: "((\<exists>i<iterations count. requestFails (net (fetchCount trace + i))) \<longrightarrow>
      success (fst (generateWithOpenAI net prompt apiKey count trace)) = False \<and>
      images (fst (generateWithOpenAI net prompt apiKey count trace)) = None \<and>
      (\<exists>j<iterations count.
         requestFails (net (fetchCount trace + j)) \<and>
         (\<forall>i<j. \<not> requestFails (net (fetchCount trace + i))) \<and>
         snd (generateWithOpenAI net prompt apiKey count trace) =
           trace @ Called OpenAI prompt count [] #
             replicate (Suc j) (Fetched (OpenAIImagesGenerations apiKey ''dall-e-3'' prompt))))"
    using o by (simp add: generateWithOpenAI_def)
  have O2: "((\<forall>i<iterations count. \<not> requestFails (net (fetchCount trace + i))) \<longrightarrow>
      generateWithOpenAI net prompt apiKey count trace =
        (if List.map_filter (\<lambda>i. openaiImageOf (net (fetchCount trace + i)))
              [0..<iterations count] = []
         then failure ''No images generated''
         else \<lparr>success = True,
               images = Some (List.map_filter (\<lambda>i. openaiImageOf (net (fetchCount trace + i)))
                                [0..<iterations count]),
               error = None\<rparr>,
         trace @ Called OpenAI prompt count [] #
           replicate (iterations count)
             (Fetched (OpenAIImagesGenerations apiKey ''dall-e-3'' prompt))))"
    using o by (simp add: generateWithOpenAI_def)
  have H: "(requestMethod request = ''POST'' \<and> requestJson request = Some json \<and>
    truthy (bodyPrompt json) \<and> truthy (GEMINI_API_KEY env) \<and>
    \<not> success (fst (generateWithGemini net (the (bodyPrompt json)) (the (GEMINI_API_KEY env))
                     (min (case bodyCount json of Some n \<Rightarrow> n | None \<Rightarrow> 1) 4) trace)) \<longrightarrow>
      handler env net request trace =
        fallBackToOpenAI env net (the (bodyPrompt json))
          (case bodyCount json of Some n \<Rightarrow> n | None \<Rightarrow> 1)
          (snd (generateWithGemini net (the (bodyPrompt json)) (the (GEMINI_API_KEY env))
                 (min (case bodyCount json of Some n \<Rightarrow> n | None \<Rightarrow> 1) 4) trace)))"
    by (simp add: handler_def Let_def split_beta)
  from G1 G2 O1 O2 H show ?thesis by (intro conjI)
qed

theorem provider_attempt_outcome_witness:
  "(1::nat) < iterations 3 \<and>
   requestFails (oneImageThenErrors (fetchCount [] + 1)) \<and>
   \<not> requestFails (oneImageThenErrors (fetchCount [] + 0)) \<and>
   success (fst (generateWithGemini oneImageThenErrors ''a pony'' ''g-key'' 3 [])) = False \<and>
   images (fst (generateWithGemini oneImageThenErrors ''a pony'' ''g-key'' 3 [])) = None \<and>
   generateWithGemini oneImageThenErrors ''a pony'' ''g-key'' 3 [] =
     (\<lparr>success = False, images = None, error = Some ''Gemini error: 500''\<rparr>,
      [Called Gemini ''a pony'' 3 [],
       Fetched (GeminiGenerateContent ''g-key'' ''Generate an image: a pony''),
       Fetched (GeminiGenerateContent ''g-key'' ''Generate an image: a pony'')]) \<and>
   generateWithOpenAI oneImageThenErrors ''a pony'' ''sk-key'' 3 [] =
     (\<lparr>success = False, images = None, error = Some ''OpenAI error: 500''\<rparr>,
      [Called OpenAI ''a pony'' 3 [],
       Fetched (OpenAIImagesGenerations ''sk-key'' ''dall-e-3'' ''a pony''),
       Fetched (OpenAIImagesGenerations ''sk-key'' ''dall-e-3'' ''a pony'')]) \<and>
   (\<forall>i. \<not> requestFails (alwaysImage i)) \<and>
   snd (generateWithGemini alwaysImage ''a pony'' ''g-key'' 2 []) =
     [Called Gemini ''a pony'' 2 [],
      Fetched (GeminiGenerateContent ''g-key'' ''Generate an image: a pony''),
      Fetched (GeminiGenerateContent ''g-key'' ''Generate an image: a pony'')] \<and>
   fst (generateWithGemini alwaysImage ''a pony'' ''g-key'' 2 []) =
     \<lparr>success = True,
      images = Some [''data:image/png;base64,AAAA'', ''data:image/png;base64,AAAA''],
      error = None\<rparr> \<and>
   handler bothKeys oneImageThenErrors sceneRequest [] =
     (\<lparr>statusCode = 400,
       responseJson = ResultJson \<lparr>success = False, images = None,
                                  error = Some ''OpenAI error: 500''\<rparr>\<rparr>,
      [Called Gemini ''a pony'' 2 [],
       Fetched (GeminiGenerateContent ''g-key'' ''Generate an image: a pony''),
       Fetched (GeminiGenerateContent ''g-key'' ''Generate an image: a pony''),
       Called OpenAI ''a pony'' 2 [],
       Fetched (OpenAIImagesGenerations ''sk-key'' ''dall-e-3'' ''a pony'')])"
proof -
  have a: "(1::nat) < iterations 3" by (simp add: iterations_def)
  have b: "requestFails (oneImageThenErrors (fetchCount [] + 1))" by code_simp
  have c: "\<not> requestFails (oneImageThenErrors (fetchCount [] + 0))" by code_simp
  have g: "generateWithGemini oneImageThenErrors ''a pony'' ''g-key'' 3 [] =
     (\<lparr>success = False, images = None, error = Some ''Gemini error: 500''\<rparr>,
      [Called Gemini ''a pony'' 3 [],
       Fetched (GeminiGenerateContent ''g-key'' ''Generate an image: a pony''),
       Fetched (GeminiGenerateContent ''g-key'' ''Generate an image: a pony'')])"
    by code_simp
  have o: "generateWithOpenAI oneImageThenErrors ''a pony'' ''sk-key'' 3 [] =
     (\<lparr>success = False, images = None, error = Some ''OpenAI error: 500''\<rparr>,
      [Called OpenAI ''a pony'' 3 [],
       Fetched (OpenAIImagesGenerations ''sk-key'' ''dall-e-3'' ''a pony''),
       Fetched (OpenAIImagesGenerations ''sk-key'' ''dall-e-3'' ''a pony'')])"
    by code_simp
  have ok: "\<forall>i. \<not> requestFails (alwaysImage i)"
    by (simp add: alwaysImage_def geminiImageReply_def response_ok_def)
  have n2: "iterations 2 = Suc (Suc 0)" by (simp add: iterations_def)
  note T2 = provider_attempt_outcome [of 2 alwaysImage "[]" "''a pony''" "''g-key''"
        sceneRequest "the (requestJson sceneRequest)" bothKeys]
  have s: "snd (generateWithGemini alwaysImage ''a pony'' ''g-key'' 2 []) =
     [Called Gemini ''a pony'' 2 [],
      Fetched (GeminiGenerateContent ''g-key'' ''Generate an image: a pony''),
      Fetched (GeminiGenerateContent ''g-key'' ''Generate an image: a pony'')]"
    using T2 ok by (simp add: n2)
  have s1: "fst (generateWithGemini alwaysImage ''a pony'' ''g-key'' 2 []) =
     \<lparr>success = True,
      images = Some [''data:image/png;base64,AAAA'', ''data:image/png;base64,AAAA''],
      error = None\<rparr>"
    by code_simp
  have h: "handler bothKeys oneImageThenErrors sceneRequest [] =
     (\<lparr>statusCode = 400,
       responseJson = ResultJson \<lparr>success = False, images = None,
                                  error = Some ''OpenAI error: 500''\<rparr>\<rparr>,
      [Called Gemini ''a pony'' 2 [],
       Fetched (GeminiGenerateContent ''g-key'' ''Generate an image: a pony''),
       Fetched (GeminiGenerateContent ''g-key'' ''Generate an image: a pony''),
       Called OpenAI ''a pony'' 2 [],
       Fetched (OpenAIImagesGenerations ''sk-key'' ''dall-e-3'' ''a pony'')])"
    by code_simp
  have t: "success (fst (generateWithGemini oneImageThenErrors ''a pony'' ''g-key'' 3 [])) = False \<and>
      images (fst (generateWithGemini oneImageThenErrors ''a pony'' ''g-key'' 3 [])) = None"
    using a b
      provider_attempt_outcome [of 3 oneImageThenErrors "[]" "''a pony''" "''g-key''"
        sceneRequest "the (requestJson sceneRequest)" bothKeys]
    by blast
  from a b c t g o ok s s1 h show ?thesis
    by (intro conjI) (erule conjunct1 conjunct2 | assumption)+
qed

theorem provider_attempt_outcome_counterexample:
  "iterations 3 = 3 \<and>
   \<not> requestFails (imageGapImage 0) \<and> \<not> requestFails (imageGapImage 1) \<and>
   \<not> requestFails (imageGapImage 2) \<and>
   generateWithGemini imageGapImage ''a pony'' ''g-key'' 3 [] =
     (\<lparr>success = True,
       images = Some [''data:image/png;base64,AAAA'', ''data:image/png;base64,AAAA''],
       error = None\<rparr>,
      [Called Gemini ''a pony'' 3 [],
       Fetched (GeminiGenerateContent ''g-key'' ''Generate an image: a pony''),
       Fetched (GeminiGenerateContent ''g-key'' ''Generate an image: a pony''),
       Fetched (GeminiGenerateContent ''g-key'' ''Generate an image: a pony'')]) \<and>
   generateWithOpenAI imageGapImage ''a pony'' ''sk-key'' 3 [] =
     (\<lparr>success = False, images = None, error = Some ''No images generated''\<rparr>,
      [Called OpenAI ''a pony'' 3 [],
       Fetched (OpenAIImagesGenerations ''sk-key'' ''dall-e-3'' ''a pony''),
       Fetched (OpenAIImagesGenerations ''sk-key'' ''dall-e-3'' ''a pony''),
       Fetched (OpenAIImagesGenerations ''sk-key'' ''dall-e-3'' ''a pony'')])"
  by code_simp

lemma requestLoop_extends:
  assumes B: "\<And>tr. \<exists>ext. snd (body tr) = tr @ ext \<and> list_all isFetched ext"
  shows "\<exists>ext. snd (requestLoop body n imgs tr) = tr @ ext \<and> list_all isFetched ext"
proof (induction n arbitrary: imgs tr)
  case 0
  then show ?case by simp
next
  case (Suc n)
  from B [of tr] obtain e1 where e1: "snd (body tr) = tr @ e1" "list_all isFetched e1" by blast
  show ?case
  proof (cases "fst (body tr)")
    case (Inl r)
    then have "body tr = (Inl r, tr @ e1)" using e1(1) by (metis prod.collapse)
    then show ?thesis using e1(2) by simp
  next
    case (Inr img)
    then have b: "body tr = (Inr img, tr @ e1)" using e1(1) by (metis prod.collapse)
    from Suc.IH [of "imgs @ (case img of Some i \<Rightarrow> [i] | None \<Rightarrow> [])" "tr @ e1"]
    obtain e2 where e2:
      "snd (requestLoop body n (imgs @ (case img of Some i \<Rightarrow> [i] | None \<Rightarrow> [])) (tr @ e1)) =
         (tr @ e1) @ e2" "list_all isFetched e2" by blast
    have "snd (requestLoop body (Suc n) imgs tr) = tr @ (e1 @ e2)"
      using e2(1) by (simp add: b)
    moreover have "list_all isFetched (e1 @ e2)" using e1(2) e2(2) by simp
    ultimately show ?thesis by blast
  qed
qed

lemma snd_finishLoop [simp]: "snd (finishLoop out) = snd out"
  by (cases out) (auto simp: finishLoop_def split: sum.splits)

lemma fetches_noReferenceStep: "list_all isFetched ext \<Longrightarrow> noReferenceStep ext"
  by (induction ext) (auto simp: noReferenceStep_def elim: isFetched.elims)

lemma noReferenceStep_append:
  "noReferenceStep (a @ b) \<longleftrightarrow> noReferenceStep a \<and> noReferenceStep b"
  by (auto simp: noReferenceStep_def)

lemma noReferenceStep_Nil [simp]: "noReferenceStep []"
  by (simp add: noReferenceStep_def)

lemma geminiRequest_extends:
  "\<exists>ext. snd (geminiRequest net p k tr) = tr @ ext \<and> list_all isFetched ext"
  by (subst geminiRequest_reply) simp

lemma openaiRequest_extends:
  "\<exists>ext. snd (openaiRequest net p k tr) = tr @ ext \<and> list_all isFetched ext"
  by (subst openaiRequest_reply) simp

lemma geminiRequest_ref_extends:
  "\<exists>ext. snd (geminiRequest_ref net p k tr) = tr @ ext \<and> list_all isFetched ext"
  by (simp add: geminiRequest_ref_def fetch_def split: ProviderReply.splits option.splits JsonBody.splits)

lemma openaiRequest_ref_extends:
  "\<exists>ext. snd (openaiRequest_ref net p k tr) = tr @ ext \<and> list_all isFetched ext"
  by (simp add: openaiRequest_ref_def fetch_def split: ProviderReply.splits option.splits JsonBody.splits)

lemma visionRequest_extends:
  "\<exists>ext. snd (visionRequest net p k refs tr) = tr @ ext \<and> list_all isFetched ext"
  by (simp add: visionRequest_def fetch_def split: ProviderReply.splits option.splits JsonBody.splits)

lemma generateWithGemini_trace:
  "\<exists>ext. snd (generateWithGemini net p k c tr) = tr @ Called Gemini p c [] # ext \<and>
         list_all isFetched ext"
  using requestLoop_extends [where body = "geminiRequest net p k", OF geminiRequest_extends,
      of "iterations c" "[]" "tr @ [Called Gemini p c []]"]
  by (simp add: generateWithGemini_def)

lemma generateWithOpenAI_trace:
  "\<exists>ext. snd (generateWithOpenAI net p k c tr) = tr @ Called OpenAI p c [] # ext \<and>
         list_all isFetched ext"
  using requestLoop_extends [where body = "openaiRequest net p k", OF openaiRequest_extends,
      of "iterations c" "[]" "tr @ [Called OpenAI p c []]"]
  by (simp add: generateWithOpenAI_def)

lemma generateWithGemini_ref_trace:
  "\<exists>ext. snd (generateWithGemini_ref net p k c tr) = tr @ Called Gemini p c [] # ext \<and>
         list_all isFetched ext"
  using requestLoop_extends [where body = "geminiRequest_ref net p k",
      OF geminiRequest_ref_extends, of "iterations c" "[]" "tr @ [Called Gemini p c []]"]
  by (simp add: generateWithGemini_ref_def)

lemma generateWithOpenAI_ref_trace:
  "\<exists>ext. snd (generateWithOpenAI_ref net p k c tr) = tr @ Called OpenAI p c [] # ext \<and>
         list_all isFetched ext"
  using requestLoop_extends [where body = "openaiRequest_ref net p k",
      OF openaiRequest_ref_extends, of "iterations c" "[]" "tr @ [Called OpenAI p c []]"]
  by (simp add: generateWithOpenAI_ref_def)

lemma generateWithOpenAIVision_trace:
  "\<exists>ext. snd (generateWithOpenAIVision net p k c refs tr) =
           tr @ Called OpenAIVision p c refs # ext \<and> list_all isFetched ext"
  using requestLoop_extends [where body = "visionRequest net p k refs",
      OF visionRequest_extends, of "iterations c" "[]" "tr @ [Called OpenAIVision p c refs]"]
  by (simp add: generateWithOpenAIVision_def)

lemma noReferenceStep_Called:
  "noReferenceStep (Called f p c [] # ext) \<longleftrightarrow> f \<noteq> OpenAIVision \<and> noReferenceStep ext"
  by (auto simp: noReferenceStep_def)

lemma fallBackToOpenAI_trace:
  "\<exists>new. snd (fallBackToOpenAI env net p c tr) = tr @ new \<and> noReferenceStep new \<and>
         (truthy (OPENAI_API_KEY env) \<longrightarrow> (\<exists>rest. new = Called OpenAI p (min c 4) [] # rest))"
proof (cases "truthy (OPENAI_API_KEY env)")
  case True
  from generateWithOpenAI_trace [of net p "the (OPENAI_API_KEY env)" "min c 4" tr]
  obtain ext where ext:
    "snd (generateWithOpenAI net p (the (OPENAI_API_KEY env)) (min c 4) tr) =
       tr @ Called OpenAI p (min c 4) [] # ext" "list_all isFetched ext" by blast
  have "snd (fallBackToOpenAI env net p c tr) = tr @ Called OpenAI p (min c 4) [] # ext"
    using True ext(1) by (simp add: fallBackToOpenAI_def split_beta)
  moreover have "noReferenceStep (Called OpenAI p (min c 4) [] # ext)"
    using ext(2) by (simp add: noReferenceStep_Called fetches_noReferenceStep)
  ultimately show ?thesis by blast
next
  case False
  then have "snd (fallBackToOpenAI env net p c tr) = tr @ []"
    by (simp add: fallBackToOpenAI_def)
  with False show ?thesis by (metis noReferenceStep_Nil)
qed

lemma dalleStep_ref_trace:
  "\<exists>new. snd (dalleStep_ref env net p c tr) = tr @ new \<and> noReferenceStep new"
proof (cases "truthy (OPENAI_API_KEY env)")
  case True
  from generateWithOpenAI_ref_trace [of net p "the (OPENAI_API_KEY env)" "min c 4" tr]
  obtain ext where ext:
    "snd (generateWithOpenAI_ref net p (the (OPENAI_API_KEY env)) (min c 4) tr) =
       tr @ Called OpenAI p (min c 4) [] # ext" "list_all isFetched ext" by blast
  have "snd (dalleStep_ref env net p c tr) = tr @ Called OpenAI p (min c 4) [] # ext"
    using True ext(1) by (simp add: dalleStep_ref_def split_beta)
  moreover have "noReferenceStep (Called OpenAI p (min c 4) [] # ext)"
    using ext(2) by (simp add: noReferenceStep_Called fetches_noReferenceStep)
  ultimately show ?thesis by blast
next
  case False
  then have "snd (dalleStep_ref env net p c tr) = tr @ []"
    by (simp add: dalleStep_ref_def)
  then show ?thesis by (metis noReferenceStep_Nil)
qed

lemma geminiStep_ref_trace:
  "\<exists>new. snd (geminiStep_ref env net p c refs tr) = tr @ new \<and> noReferenceStep new"
proof (cases "truthy (GEMINI_API_KEY env) \<and> length refs = 0")
  case True
  from generateWithGemini_ref_trace [of net p "the (GEMINI_API_KEY env)" "min c 4" tr]
  obtain ext where ext:
    "snd (generateWithGemini_ref net p (the (GEMINI_API_KEY env)) (min c 4) tr) =
       tr @ Called Gemini p (min c 4) [] # ext" "list_all isFetched ext" by blast
  let ?g = "generateWithGemini_ref net p (the (GEMINI_API_KEY env)) (min c 4) tr"
  have n1: "noReferenceStep (Called Gemini p (min c 4) [] # ext)"
    using ext(2) by (simp add: noReferenceStep_Called fetches_noReferenceStep)
  show ?thesis
  proof (cases "success (fst ?g)")
    case s: True
    have "snd (geminiStep_ref env net p c refs tr) = tr @ Called Gemini p (min c 4) [] # ext"
      using True s ext(1) by (simp add: geminiStep_ref_def split_beta)
    with n1 show ?thesis by blast
  next
    case s: False
    from dalleStep_ref_trace [of env net p c "snd ?g"] obtain new2 where new2:
      "snd (dalleStep_ref env net p c (snd ?g)) = snd ?g @ new2" "noReferenceStep new2" by blast
    have "snd (geminiStep_ref env net p c refs tr) =
            tr @ ((Called Gemini p (min c 4) [] # ext) @ new2)"
      using True s ext(1) new2(1) by (simp add: geminiStep_ref_def split_beta)
    moreover have "noReferenceStep ((Called Gemini p (min c 4) [] # ext) @ new2)"
      using n1 new2(2) by (simp only: noReferenceStep_append)
    ultimately show ?thesis by blast
  qed
next
  case False
  then have "geminiStep_ref env net p c refs tr = dalleStep_ref env net p c tr"
    by (auto simp: geminiStep_ref_def)
  then show ?thesis using dalleStep_ref_trace [of env net p c tr] by simp
qed

lemma handler_trace:
  "\<exists>new. snd (handler env net request tr) = tr @ new \<and> noReferenceStep new \<and>
     (requestMethod request = ''POST'' \<and> requestJson request = Some json \<and>
      truthy (bodyPrompt json) \<and> truthy (GEMINI_API_KEY env) \<longrightarrow>
        (\<exists>rest. new = Called Gemini (the (bodyPrompt json))
                        (min (case bodyCount json of Some n \<Rightarrow> n | None \<Rightarrow> 1) 4) [] # rest)) \<and>
     (requestMethod request = ''POST'' \<and> requestJson request = Some json \<and>
      truthy (bodyPrompt json) \<and> \<not> truthy (GEMINI_API_KEY env) \<and> truthy (OPENAI_API_KEY env) \<longrightarrow>
        (\<exists>rest. new = Called OpenAI (the (bodyPrompt json))
                        (min (case bodyCount json of Some n \<Rightarrow> n | None \<Rightarrow> 1) 4) [] # rest))"
proof (cases "requestMethod request = ''POST'' \<and> (truthy (GEMINI_API_KEY env) \<or> truthy (OPENAI_API_KEY env))
    \<and> (\<exists>j. requestJson request = Some j \<and> truthy (bodyPrompt j))")
  case False
  then have "snd (handler env net request tr) = tr @ []"
    by (auto simp: handler_def Let_def split: option.splits)
  moreover have "noReferenceStep []" by simp
  ultimately show ?thesis using False by (metis option.inject)
next
  case True
  then obtain j where j: "requestJson request = Some j" "truthy (bodyPrompt j)" by blast
  let ?p = "the (bodyPrompt j)"
  let ?c = "case bodyCount j of Some n \<Rightarrow> n | None \<Rightarrow> 1"
  show ?thesis
  proof (cases "truthy (GEMINI_API_KEY env)")
    case g: True
    let ?g = "generateWithGemini net ?p (the (GEMINI_API_KEY env)) (min ?c 4) tr"
    from generateWithGemini_trace [of net ?p "the (GEMINI_API_KEY env)" "min ?c 4" tr]
    obtain ext where ext: "snd ?g = tr @ Called Gemini ?p (min ?c 4) [] # ext"
      "list_all isFetched ext" by blast
    have n1: "noReferenceStep (Called Gemini ?p (min ?c 4) [] # ext)"
      using ext(2) by (simp add: noReferenceStep_Called fetches_noReferenceStep)
    have "\<exists>more. snd (handler env net request tr) = tr @ (Called Gemini ?p (min ?c 4) [] # ext) @ more
            \<and> noReferenceStep more"
    proof (cases "success (fst ?g)")
      case s: True
      have "snd (handler env net request tr) = tr @ (Called Gemini ?p (min ?c 4) [] # ext) @ []"
        using True j g s ext(1) by (simp add: handler_def Let_def split_beta)
      then show ?thesis by (metis noReferenceStep_Nil)
    next
      case s: False
      from fallBackToOpenAI_trace [of env net ?p ?c "snd ?g"] obtain new2 where new2:
        "snd (fallBackToOpenAI env net ?p ?c (snd ?g)) = snd ?g @ new2" "noReferenceStep new2"
        by blast
      have "snd (handler env net request tr) = tr @ (Called Gemini ?p (min ?c 4) [] # ext) @ new2"
        using True j g s ext(1) new2(1) by (simp add: handler_def Let_def split_beta)
      with new2(2) show ?thesis by blast
    qed
    then obtain more where more:
      "snd (handler env net request tr) = tr @ (Called Gemini ?p (min ?c 4) [] # ext) @ more"
      "noReferenceStep more" by blast
    have "noReferenceStep ((Called Gemini ?p (min ?c 4) [] # ext) @ more)"
      using n1 more(2) by (simp only: noReferenceStep_append)
    moreover have "(Called Gemini ?p (min ?c 4) [] # ext) @ more =
        Called Gemini ?p (min ?c 4) [] # (ext @ more)" by simp
    ultimately show ?thesis using more(1) g j by (metis option.inject)
  next
    case g: False
    with True have o: "truthy (OPENAI_API_KEY env)" by blast
    from fallBackToOpenAI_trace [of env net ?p ?c tr] o obtain new rest where new:
      "snd (fallBackToOpenAI env net ?p ?c tr) = tr @ new" "noReferenceStep new"
      "new = Called OpenAI ?p (min ?c 4) [] # rest" by blast
    have "snd (handler env net request tr) = tr @ new"
      using True j g new(1) by (simp add: handler_def Let_def split_beta)
    then show ?thesis using new(2,3) g j by (metis option.inject)
  qed
qed

lemma handler_ref_vision_first:
  assumes "requestMethod request = ''POST''" and "requestJson request = Some json"
    and "truthy (bodyPrompt json)" and "bodyReferenceImages json = Some refs" and "refs \<noteq> []"
    and "truthy (OPENAI_API_KEY env)"
  shows "\<exists>rest. snd (handler_ref env net request tr) =
           tr @ Called OpenAIVision (the (bodyPrompt json))
                  (min (case bodyCount json of Some n \<Rightarrow> n | None \<Rightarrow> 1) 4) refs # rest"
proof -
  let ?p = "the (bodyPrompt json)"
  let ?c = "case bodyCount json of Some n \<Rightarrow> n | None \<Rightarrow> 1"
  let ?v = "generateWithOpenAIVision net ?p (the (OPENAI_API_KEY env)) (min ?c 4) refs tr"
  from generateWithOpenAIVision_trace [of net ?p "the (OPENAI_API_KEY env)" "min ?c 4" refs tr]
  obtain ext where ext: "snd ?v = tr @ Called OpenAIVision ?p (min ?c 4) refs # ext" by blast
  show ?thesis
  proof (cases "success (fst ?v)")
    case True
    have "snd (handler_ref env net request tr) = tr @ Called OpenAIVision ?p (min ?c 4) refs # ext"
      using assms True ext by (simp add: handler_ref_def Let_def split_beta)
    then show ?thesis by blast
  next
    case False
    from geminiStep_ref_trace [of env net ?p ?c refs "snd ?v"] obtain new2 where
      "snd (geminiStep_ref env net ?p ?c refs (snd ?v)) = snd ?v @ new2" by blast
    then have "snd (handler_ref env net request tr) =
        tr @ Called OpenAIVision ?p (min ?c 4) refs # (ext @ new2)"
      using assms False ext by (simp add: handler_ref_def Let_def split_beta)
    then show ?thesis by blast
  qed
qed

lemma handler_ref_no_references:
  assumes "\<forall>json. requestJson request = Some json \<longrightarrow>
             bodyReferenceImages json = None \<or> bodyReferenceImages json = Some []"
  shows "\<exists>new. snd (handler_ref env net request tr) = tr @ new \<and> noReferenceStep new"
proof (cases "requestMethod request = ''POST'' \<and> (truthy (GEMINI_API_KEY env) \<or> truthy (OPENAI_API_KEY env))
    \<and> (\<exists>j. requestJson request = Some j \<and> truthy (bodyPrompt j))")
  case False
  then have "snd (handler_ref env net request tr) = tr @ []"
    by (auto simp: handler_ref_def Let_def split: option.splits)
  then show ?thesis by (metis noReferenceStep_Nil)
next
  case True
  then obtain j where j: "requestJson request = Some j" "truthy (bodyPrompt j)" by blast
  with assms have r: "(case bodyReferenceImages j of Some r \<Rightarrow> r | None \<Rightarrow> []) = []"
    by (auto split: option.splits)
  let ?p = "the (bodyPrompt j)"
  let ?c = "case bodyCount j of Some n \<Rightarrow> n | None \<Rightarrow> 1"
  have "handler_ref env net request tr = geminiStep_ref env net ?p ?c [] tr"
    using True j r by (auto simp: handler_ref_def Let_def)
  then show ?thesis using geminiStep_ref_trace [of env net ?p ?c "[]" tr] by simp
qed

lemma handler_ignores_references:
  "handler env net (request\<lparr>requestJson := Some (json\<lparr>bodyReferenceImages := r\<rparr>)\<rparr>) tr =
   handler env net (request\<lparr>requestJson := Some json\<rparr>) tr"
  by (simp add: handler_def Let_def)

lemma friendlyError_not_configured: "friendlyError ''No API key configured'' = notSetUpMessage"
  by code_simp

text \<open>
  The order of the provider steps. In the second source a request with reference images
  and an OpenAI key has \<open>generateWithOpenAIVision\<close> as its first provider call, and a request
  without reference images never reaches it; the first source never calls a provider with
  reference images, starts with Gemini when its key is configured, and answers the same
  whatever the reference images of the request.
\<close>

lemma provider_step_order:
  "(requestMethod request = ''POST'' \<and> requestJson request = Some json \<and>
    truthy (bodyPrompt json) \<and> bodyReferenceImages json = Some refs \<and> refs \<noteq> [] \<and>
    truthy (OPENAI_API_KEY env) \<longrightarrow>
      (\<exists>rest. snd (handler_ref env net request trace) =
         trace @ Called OpenAIVision (the (bodyPrompt json))
                   (min (case bodyCount json of Some n \<Rightarrow> n | None \<Rightarrow> 1) 4) refs # rest)) \<and>
   ((\<forall>j. requestJson request = Some j \<longrightarrow>
           bodyReferenceImages j = None \<or> bodyReferenceImages j = Some []) \<longrightarrow>
      (\<exists>new. snd (handler_ref env net request trace) = trace @ new \<and> noReferenceStep new)) \<and>
   (\<exists>new. snd (handler env net request trace) = trace @ new \<and> noReferenceStep new) \<and>
   (requestMethod request = ''POST'' \<and> requestJson request = Some json \<and>
    truthy (bodyPrompt json) \<and> truthy (GEMINI_API_KEY env) \<longrightarrow>
      (\<exists>rest. snd (handler env net request trace) =
         trace @ Called Gemini (the (bodyPrompt json))
                   (min (case bodyCount json of Some n \<Rightarrow> n | None \<Rightarrow> 1) 4) [] # rest)) \<and>
   handler env net (request\<lparr>requestJson := Some (json\<lparr>bodyReferenceImages := r\<rparr>)\<rparr>) trace =
     handler env net (request\<lparr>requestJson := Some json\<rparr>) trace"
proof -
  have A: "requestMethod request = ''POST'' \<and> requestJson request = Some json \<and>
    truthy (bodyPrompt json) \<and> bodyReferenceImages json = Some refs \<and> refs \<noteq> [] \<and>
    truthy (OPENAI_API_KEY env) \<longrightarrow>
      (\<exists>rest. snd (handler_ref env net request trace) =
         trace @ Called OpenAIVision (the (bodyPrompt json))
                   (min (case bodyCount json of Some n \<Rightarrow> n | None \<Rightarrow> 1) 4) refs # rest)"
    using handler_ref_vision_first [of request json refs env net trace] by blast
  have B: "(\<forall>j. requestJson request = Some j \<longrightarrow>
           bodyReferenceImages j = None \<or> bodyReferenceImages j = Some []) \<longrightarrow>
      (\<exists>new. snd (handler_ref env net request trace) = trace @ new \<and> noReferenceStep new)"
    using handler_ref_no_references [of request env net trace] by blast
  from handler_trace [of env net request trace json] obtain new where new:
    "snd (handler env net request trace) = trace @ new" "noReferenceStep new"
    "requestMethod request = ''POST'' \<and> requestJson request = Some json \<and>
      truthy (bodyPrompt json) \<and> truthy (GEMINI_API_KEY env) \<longrightarrow>
        (\<exists>rest. new = Called Gemini (the (bodyPrompt json))
                        (min (case bodyCount json of Some n \<Rightarrow> n | None \<Rightarrow> 1) 4) [] # rest)"
    by blast
  have C: "\<exists>new. snd (handler env net request trace) = trace @ new \<and> noReferenceStep new"
    using new(1,2) by blast
  have D: "requestMethod request = ''POST'' \<and> requestJson request = Some json \<and>
    truthy (bodyPrompt json) \<and> truthy (GEMINI_API_KEY env) \<longrightarrow>
      (\<exists>rest. snd (handler env net request trace) =
         trace @ Called Gemini (the (bodyPrompt json))
                   (min (case bodyCount json of Some n \<Rightarrow> n | None \<Rightarrow> 1) 4) [] # rest)"
    using new(1,3) by auto
  have E: "handler env net (request\<lparr>requestJson := Some (json\<lparr>bodyReferenceImages := r\<rparr>)\<rparr>) trace =
     handler env net (request\<lparr>requestJson := Some json\<rparr>) trace"
    by (rule handler_ignores_references)
  from A B C D E show ?thesis by (intro conjI)
qed

text \<open>
  The request that \<open>generateWithOpenAIVision\<close> sends: the function collects the reference
  images in \<open>content\<close>, and the body it posts holds the model, the prompt, \<open>n\<close>, the size and
  the quality only.
\<close>

lemma visionRequest_ignores_references:
  "visionRequest net prompt apiKey refs trace = visionRequest net prompt apiKey [] trace"
  by (simp add: visionRequest_def)

text \<open>
  Claim C1. The provider step for reference images does not attach them. In the second
  source the request of \<open>generateWithOpenAIVision\<close> is the same for every list of reference
  images: a scene request with one reference image and both keys configured starts with that
  step, and each fetch carries the model and the prompt only; the same request with another
  reference image leads to the same fetches and the same response. In the first source the
  same request starts with Gemini, called without reference images.
\<close>

theorem vision_step_sends_no_reference_images:
  "visionRequest net prompt apiKey refs trace = visionRequest net prompt apiKey [] trace \<and>
   handler_ref bothKeys alwaysOpenAIImage sceneRequest [] =
     (\<lparr>statusCode = 200,
       responseJson = ResultJson
         \<lparr>success = True,
          images = Some [''data:image/png;base64,BBBB'', ''data:image/png;base64,BBBB''],
          error = None\<rparr>\<rparr>,
      [Called OpenAIVision ''a pony'' 2 [''data:image/png;base64,LUNA''],
       Fetched (OpenAIImagesGenerations ''sk-key'' ''gpt-image-1'' ''a pony''),
       Fetched (OpenAIImagesGenerations ''sk-key'' ''gpt-image-1'' ''a pony'')]) \<and>
   handler_ref bothKeys alwaysOpenAIImage
       (sceneRequest\<lparr>requestJson :=
          Some \<lparr>bodyPrompt = Some ''a pony'', bodyCount = Some 2,
                bodyReferenceImages = Some [''data:image/png;base64,MAX'']\<rparr>\<rparr>) [] =
     (\<lparr>statusCode = 200,
       responseJson = ResultJson
         \<lparr>success = True,
          images = Some [''data:image/png;base64,BBBB'', ''data:image/png;base64,BBBB''],
          error = None\<rparr>\<rparr>,
      [Called OpenAIVision ''a pony'' 2 [''data:image/png;base64,MAX''],
       Fetched (OpenAIImagesGenerations ''sk-key'' ''gpt-image-1'' ''a pony''),
       Fetched (OpenAIImagesGenerations ''sk-key'' ''gpt-image-1'' ''a pony'')]) \<and>
   handler bothKeys alwaysImage sceneRequest [] =
     (\<lparr>statusCode = 200,
       responseJson = ResultJson
         \<lparr>success = True,
          images = Some [''data:image/png;base64,AAAA'', ''data:image/png;base64,AAAA''],
          error = None\<rparr>\<rparr>,
      [Called Gemini ''a pony'' 2 [],
       Fetched (GeminiGenerateContent ''g-key'' ''Generate an image: a pony''),
       Fetched (GeminiGenerateContent ''g-key'' ''Generate an image: a pony'')])"
proof -
  have 1: "visionRequest net prompt apiKey refs trace = visionRequest net prompt apiKey [] trace"
    by (rule visionRequest_ignores_references)
  have 2: "handler_ref bothKeys alwaysOpenAIImage sceneRequest [] =
     (\<lparr>statusCode = 200,
       responseJson = ResultJson
         \<lparr>success = True,
          images = Some [''data:image/png;base64,BBBB'', ''data:image/png;base64,BBBB''],
          error = None\<rparr>\<rparr>,
      [Called OpenAIVision ''a pony'' 2 [''data:image/png;base64,LUNA''],
       Fetched (OpenAIImagesGenerations ''sk-key'' ''gpt-image-1'' ''a pony''),
       Fetched (OpenAIImagesGenerations ''sk-key'' ''gpt-image-1'' ''a pony'')])"
    by code_simp
  have 3: "handler_ref bothKeys alwaysOpenAIImage
       (sceneRequest\<lparr>requestJson :=
          Some \<lparr>bodyPrompt = Some ''a pony'', bodyCount = Some 2,
                bodyReferenceImages = Some [''data:image/png;base64,MAX'']\<rparr>\<rparr>) [] =
     (\<lparr>statusCode = 200,
       responseJson = ResultJson
         \<lparr>success = True,
          images = Some [''data:image/png;base64,BBBB'', ''data:image/png;base64,BBBB''],
          error = None\<rparr>\<rparr>,
      [Called OpenAIVision ''a pony'' 2 [''data:image/png;base64,MAX''],
       Fetched (OpenAIImagesGenerations ''sk-key'' ''gpt-image-1'' ''a pony''),
       Fetched (OpenAIImagesGenerations ''sk-key'' ''gpt-image-1'' ''a pony'')])"
    by code_simp
  have 4: "handler bothKeys alwaysImage sceneRequest [] =
     (\<lparr>statusCode = 200,
       responseJson = ResultJson
         \<lparr>success = True,
          images = Some [''data:image/png;base64,AAAA'', ''data:image/png;base64,AAAA''],
          error = None\<rparr>\<rparr>,
      [Called Gemini ''a pony'' 2 [],
       Fetched (GeminiGenerateContent ''g-key'' ''Generate an image: a pony''),
       Fetched (GeminiGenerateContent ''g-key'' ''Generate an image: a pony'')])"
    by code_simp
  from 1 2 3 4 show ?thesis by (intro conjI)
qed

text \<open>
  Both handlers check the method before anything else: a request that is not a POST gets
  status 405 and reaches no provider.
\<close>

lemma non_post_request_rejected:
  "requestMethod request \<noteq> ''POST'' \<Longrightarrow>
   handler env net request trace =
     (\<lparr>statusCode = 405, responseJson = ErrorJson ''Method not allowed''\<rparr>, trace) \<and>
   handler_ref env net request trace =
     (\<lparr>statusCode = 405, responseJson = ErrorJson ''Method not allowed''\<rparr>, trace)"
  by (simp add: handler_def handler_ref_def)

text \<open>
  Claim C6. With neither \<open>GEMINI_API_KEY\<close> nor \<open>OPENAI_API_KEY\<close> configured (absent or empty),
  every POST request, whatever its body, gets status 500 with the error
  \<open>No API key configured\<close> from both handlers, the trace is returned unchanged, so that no
  provider function is called and no fetch is made, and the client turns that error into
  its not-set-up message.
\<close>

theorem no_credentials_no_provider_call:
  "\<not> truthy (GEMINI_API_KEY env) \<and> \<not> truthy (OPENAI_API_KEY env) \<and>
   requestMethod request = ''POST'' \<longrightarrow>
     handler env net request trace =
       (\<lparr>statusCode = 500, responseJson = ErrorJson ''No API key configured''\<rparr>, trace) \<and>
     handler_ref env net request trace =
       (\<lparr>statusCode = 500, responseJson = ErrorJson ''No API key configured''\<rparr>, trace) \<and>
     fetchCount (snd (handler env net request trace)) = fetchCount trace \<and>
     fetchCount (snd (handler_ref env net request trace)) = fetchCount trace \<and>
     friendlyError ''No API key configured'' = notSetUpMessage"
  by (simp add: handler_def handler_ref_def Let_def friendlyError_not_configured)

theorem no_credentials_no_provider_call_witness:
  "\<not> truthy (GEMINI_API_KEY noKeys) \<and> \<not> truthy (OPENAI_API_KEY noKeys) \<and>
   requestMethod sceneRequest = ''POST'' \<and>
   handler noKeys alwaysImage sceneRequest [] =
     (\<lparr>statusCode = 500, responseJson = ErrorJson ''No API key configured''\<rparr>, []) \<and>
   handler_ref noKeys alwaysImage sceneRequest [] =
     (\<lparr>statusCode = 500, responseJson = ErrorJson ''No API key configured''\<rparr>, []) \<and>
   handler noKeys alwaysImage \<lparr>requestMethod = ''POST'', requestJson = None\<rparr> [] =
     (\<lparr>statusCode = 500, responseJson = ErrorJson ''No API key configured''\<rparr>, []) \<and>
   handler \<lparr>GEMINI_API_KEY = Some [], OPENAI_API_KEY = None\<rparr> alwaysImage portraitRequest [] =
     (\<lparr>statusCode = 500, responseJson = ErrorJson ''No API key configured''\<rparr>, [])"
proof -
  have k: "\<not> truthy (GEMINI_API_KEY noKeys)" "\<not> truthy (OPENAI_API_KEY noKeys)"
    by (simp_all add: noKeys_def)
  have m: "requestMethod sceneRequest = ''POST''" "requestMethod portraitRequest = ''POST''"
    by (simp_all add: sceneRequest_def portraitRequest_def)
  from k m no_credentials_no_provider_call [of noKeys sceneRequest alwaysImage "[]"]
    no_credentials_no_provider_call [of noKeys "\<lparr>requestMethod = ''POST'', requestJson = None\<rparr>"
      alwaysImage "[]"]
    no_credentials_no_provider_call [of "\<lparr>GEMINI_API_KEY = Some [], OPENAI_API_KEY = None\<rparr>"
      portraitRequest alwaysImage "[]"]
  show ?thesis by simp
qed

end
